theory Spec2Isabelle
  imports Main "HOL-Library.Multiset"
begin

section \<open>Data model\<close>

text \<open>
  The tables the route handlers read and write through the Prisma client, one record per
  row type, with the columns the handlers name. Primary keys (cuid strings in the
  database) are opaque and modelled as natural numbers; timestamps are natural numbers.
  Field names carry a table prefix because several tables have columns of the same name.
\<close>

type_synonym id = nat

datatype CaseStatus =
    PENDING | AWAITING_RESPONSE | ACCEPTED | WITNESSES_NOMINATED | PANEL_CREATED
  | MEDIATION_IN_PROGRESS | RESOLVED | UNRESOLVED | CANCELLED

text \<open>The status names, in the order of the \<open>isIn\<close> list of the admin status route.\<close>

definition all_statuses :: "CaseStatus list" where
  "all_statuses = [PENDING, AWAITING_RESPONSE, ACCEPTED, WITNESSES_NOMINATED, PANEL_CREATED,
     MEDIATION_IN_PROGRESS, RESOLVED, UNRESOLVED, CANCELLED]"

fun status_name :: "CaseStatus \<Rightarrow> string" where
  "status_name PENDING = ''PENDING''"
| "status_name AWAITING_RESPONSE = ''AWAITING_RESPONSE''"
| "status_name ACCEPTED = ''ACCEPTED''"
| "status_name WITNESSES_NOMINATED = ''WITNESSES_NOMINATED''"
| "status_name PANEL_CREATED = ''PANEL_CREATED''"
| "status_name MEDIATION_IN_PROGRESS = ''MEDIATION_IN_PROGRESS''"
| "status_name RESOLVED = ''RESOLVED''"
| "status_name UNRESOLVED = ''UNRESOLVED''"
| "status_name CANCELLED = ''CANCELLED''"

definition parse_status :: "string \<Rightarrow> CaseStatus option" where
  "parse_status s = find (\<lambda>st. status_name st = s) all_statuses"

text \<open>JSON values, for the \<open>metadata\<close> column of the case history.\<close>

datatype json = JNull | JStr string | JId id | JObj "(string \<times> json) list"

record user =
  u_id :: id
  u_email :: string
  u_name :: string
  u_phone :: "string option"
  u_role :: string

record case_row =
  c_id :: id
  c_caseNumber :: string
  c_caseType :: string
  c_issueDescription :: string
  c_complainantId :: id
  c_respondentId :: "id option"
  c_oppositePartyName :: string
  c_oppositePartyEmail :: "string option"
  c_oppositePartyPhone :: "string option"
  c_oppositePartyAddress :: "string option"
  c_isInCourt :: bool
  c_isInPoliceStation :: bool
  c_courtCaseNumber :: "string option"
  c_firNumber :: "string option"
  c_courtName :: "string option"
  c_policeStationName :: "string option"
  c_priority :: string
  c_status :: CaseStatus
  c_respondentAccepted :: "bool option"
  c_respondentResponse :: "string option"
  c_respondentResponseAt :: "nat option"
  c_createdAt :: nat

record evidence_row =
  e_id :: id
  e_fileName :: string
  e_originalName :: string
  e_fileType :: string
  e_fileSize :: nat
  e_fileUrl :: string
  e_caseId :: id

record history_row =
  h_id :: id
  h_caseId :: id
  h_action :: string
  h_description :: string
  h_performedById :: "id option"
  h_metadata :: "(string \<times> json) list option"
  h_createdAt :: nat

record notification_row =
  n_id :: id
  n_userId :: id
  n_caseId :: "id option"
  n_type :: string
  n_title :: string
  n_message :: string
  n_isRead :: bool
  n_createdAt :: nat

record witness_row =
  w_id :: id
  w_caseId :: id
  w_name :: string
  w_email :: string
  w_phone :: string
  w_relationship :: string
  w_statement :: "string option"

record panel_row =
  p_id :: id
  p_caseId :: id
  p_lawyerId :: id
  p_religiousScholarId :: "id option"
  p_societyMemberId :: "id option"
  p_createdAt :: nat

text \<open>
  The database: one list per table, rows in insertion order, with the generator of
  fresh primary keys and the clock that stamps \<open>createdAt\<close>.
\<close>

record db =
  db_users :: "user list"
  db_cases :: "case_row list"
  db_evidence :: "evidence_row list"
  db_caseHistory :: "history_row list"
  db_notifications :: "notification_row list"
  db_witnesses :: "witness_row list"
  db_mediationPanels :: "panel_row list"
  db_next_id :: nat
  db_clock :: nat

text \<open>
  Functions of the libraries the handlers call (express-validator sanitizers and
  validators, the case-number format, the unique index of the witness table): they are
  not code of this repository and are parameters of the model.
\<close>

record env =
  isEmail :: "string \<Rightarrow> bool"
  normalizeEmail :: "string \<Rightarrow> string"
  trim :: "string \<Rightarrow> string"
  escape :: "string \<Rightarrow> string"
  mkCaseNumber :: "nat \<Rightarrow> string"
  witness_conflict :: "witness_row \<Rightarrow> witness_row \<Rightarrow> bool"

section \<open>Responses\<close>

datatype payload =
    PError string
  | PCase case_row
  | PCaseOpt "case_row option"
  | PCaseDetail case_row "history_row list"
  | PUsers "user list"
  | PPanel panel_row
  | PUser user
  | PNone

datatype response = Response nat payload

fun status_code :: "response \<Rightarrow> nat" where
  "status_code (Response n p) = n"

fun body_of :: "response \<Rightarrow> payload" where
  "body_of (Response n p) = p"

text \<open>
  The error classes of the interface and the HTTP status each one is sent with:
  400 for failed validation, 403 for a missing role, 404 for a missing or invisible
  record, 409 for an already existing resource, 500 from the \<open>catch\<close> blocks.
\<close>

datatype error_class = VALIDATION | FORBIDDEN | NOT_FOUND | CONFLICT | INTERNAL

definition class_of :: "response \<Rightarrow> error_class option" where
  "class_of r =
     (if status_code r = 400 then Some VALIDATION
      else if status_code r = 403 then Some FORBIDDEN
      else if status_code r = 404 then Some NOT_FOUND
      else if status_code r = 409 then Some CONFLICT
      else if status_code r = 500 then Some INTERNAL
      else None)"

section \<open>Database calls, exceptions and early returns\<close>

text \<open>
  A handler is a sequence of awaited database calls inside one \<open>try\<close> block. Any call
  can throw; the \<open>catch\<close> block then answers 500, and whatever the earlier calls wrote
  stays written, because no handler opens a transaction. The world a handler runs in is
  the database together with a fault: \<open>Some k\<close> makes the call number \<open>k\<close> (counted
  from 0 in program order) throw, \<open>None\<close> lets every call through. A call also throws
  by itself where the client does (an update of a row that is not there).
\<close>

type_synonym world = "db \<times> nat option"

type_synonym 'a dbop = "db \<Rightarrow> ('a \<times> db) option"

datatype 'a outcome = Done 'a | Reply response | Thrown

type_synonym 'a io = "world \<Rightarrow> 'a outcome \<times> world"

definition dbcall :: "'a dbop \<Rightarrow> 'a io" where
  "dbcall f w =
     (case snd w of
        Some 0 \<Rightarrow> (Thrown, (fst w, None))
      | Some (Suc k) \<Rightarrow>
          (case f (fst w) of None \<Rightarrow> (Thrown, (fst w, Some k))
           | Some (a, d) \<Rightarrow> (Done a, (d, Some k)))
      | None \<Rightarrow>
          (case f (fst w) of None \<Rightarrow> (Thrown, (fst w, None))
           | Some (a, d) \<Rightarrow> (Done a, (d, None))))"

definition io_return :: "'a \<Rightarrow> 'a io" where
  "io_return a w = (Done a, w)"

text \<open>\<open>return res.status(...).json(...)\<close> in the middle of a handler.\<close>

definition reply :: "response \<Rightarrow> 'a io" where
  "reply r w = (Reply r, w)"

definition io_bind :: "'a io \<Rightarrow> ('a \<Rightarrow> 'b io) \<Rightarrow> 'b io" where
  "io_bind m f w =
     (case m w of
        (Done a, w') \<Rightarrow> f a w'
      | (Reply r, w') \<Rightarrow> (Reply r, w')
      | (Thrown, w') \<Rightarrow> (Thrown, w'))"

text \<open>
  \<open>await Promise.all(ps)\<close> over database calls: every call is issued, each one succeeds
  or throws on its own, and the \<open>await\<close> throws when one of them did. The calls run
  concurrently in the program; the model issues them in list order.
\<close>

fun promise_all_run :: "'a dbop list \<Rightarrow> world \<Rightarrow> 'a list option \<times> world" where
  "promise_all_run [] w = (Some [], w)"
| "promise_all_run (f # fs) w =
     (case dbcall f w of
        (Done a, w') \<Rightarrow>
          (case promise_all_run fs w' of (r, w'') \<Rightarrow> (map_option ((#) a) r, w''))
      | (Reply r, w') \<Rightarrow> (case promise_all_run fs w' of (r, w'') \<Rightarrow> (None, w''))
      | (Thrown, w') \<Rightarrow> (case promise_all_run fs w' of (r, w'') \<Rightarrow> (None, w'')))"

definition promise_all :: "'a dbop list \<Rightarrow> 'a list io" where
  "promise_all fs w =
     (case promise_all_run fs w of
        (Some as, w') \<Rightarrow> (Done as, w')
      | (None, w') \<Rightarrow> (Thrown, w'))"

text \<open>
  The \<open>try { ... } catch (error) { res.status(500).json({error: msg}) }\<close> around a
  handler body: the response and the database the request leaves behind.
\<close>

definition handle :: "string \<Rightarrow> response io \<Rightarrow> world \<Rightarrow> response \<times> db" where
  "handle msg m w =
     (case m w of
        (Done r, w') \<Rightarrow> (r, fst w')
      | (Reply r, w') \<Rightarrow> (r, fst w')
      | (Thrown, w') \<Rightarrow> (Response 500 (PError msg), fst w'))"

section \<open>Prisma calls\<close>

definition user_findUnique_id :: "id \<Rightarrow> user option dbop" where
  "user_findUnique_id uid d = Some (find (\<lambda>u. u_id u = uid) (db_users d), d)"

definition user_findUnique_email :: "string \<Rightarrow> user option dbop" where
  "user_findUnique_email e d = Some (find (\<lambda>u. u_email u = e) (db_users d), d)"

definition case_findUnique :: "id \<Rightarrow> case_row option dbop" where
  "case_findUnique cid d = Some (find (\<lambda>c. c_id c = cid) (db_cases d), d)"

definition case_findFirst :: "(case_row \<Rightarrow> bool) \<Rightarrow> case_row option dbop" where
  "case_findFirst P d = Some (find P (db_cases d), d)"

text \<open>\<open>prisma.case.update({where: {id}, data})\<close>: throws when no row has the id.\<close>

definition case_update :: "id \<Rightarrow> (case_row \<Rightarrow> case_row) \<Rightarrow> case_row dbop" where
  "case_update cid f d =
     (case find (\<lambda>c. c_id c = cid) (db_cases d) of
        None \<Rightarrow> None
      | Some c \<Rightarrow>
          Some (f c, d\<lparr>db_cases := map (\<lambda>x. if c_id x = cid then f x else x) (db_cases d),
                        db_clock := db_clock d + 1\<rparr>))"

definition caseHistory_create ::
  "id \<Rightarrow> string \<Rightarrow> string \<Rightarrow> id option \<Rightarrow> (string \<times> json) list option \<Rightarrow> history_row dbop" where
  "caseHistory_create cid action description performedBy metadata d =
     (let row = \<lparr>h_id = db_next_id d, h_caseId = cid, h_action = action,
                 h_description = description, h_performedById = performedBy,
                 h_metadata = metadata, h_createdAt = db_clock d\<rparr>
      in Some (row, d\<lparr>db_caseHistory := db_caseHistory d @ [row],
                      db_next_id := db_next_id d + 1, db_clock := db_clock d + 1\<rparr>))"

definition notification_create ::
  "id \<Rightarrow> id \<Rightarrow> string \<Rightarrow> string \<Rightarrow> string \<Rightarrow> notification_row dbop" where
  "notification_create uid cid type title message d =
     (let row = \<lparr>n_id = db_next_id d, n_userId = uid, n_caseId = Some cid, n_type = type,
                 n_title = title, n_message = message, n_isRead = False,
                 n_createdAt = db_clock d\<rparr>
      in Some (row, d\<lparr>db_notifications := db_notifications d @ [row],
                      db_next_id := db_next_id d + 1, db_clock := db_clock d + 1\<rparr>))"

section \<open>Middleware\<close>

text \<open>
  The bearer token of a request, after \<open>jwt.verify\<close>: no header, a token that does not
  verify, or a token that decodes to a user id. Credentials are outside the model.
\<close>

datatype token = NoHeader | BadToken | Token id

definition authenticate :: "token \<Rightarrow> world \<Rightarrow> user outcome \<times> world" where
  "authenticate tok w =
     (case tok of
        NoHeader \<Rightarrow> (Reply (Response 401 (PError ''Access token is required'')), w)
      | BadToken \<Rightarrow> (Reply (Response 401 (PError ''Invalid or expired token'')), w)
      | Token uid \<Rightarrow>
          (case dbcall (user_findUnique_id uid) w of
             (Done None, w') \<Rightarrow> (Reply (Response 401 (PError ''User not found'')), w')
           | (Done (Some u), w') \<Rightarrow> (Done u, w')
           | (Reply r, w') \<Rightarrow> (Reply r, w')
           | (Thrown, w') \<Rightarrow> (Reply (Response 401 (PError ''Invalid or expired token'')), w')))"

text \<open>\<open>requireAdmin\<close>: \<open>None\<close> is \<open>next()\<close>, \<open>Some r\<close> the response that ends the request.\<close>

definition requireAdmin :: "user option \<Rightarrow> response option" where
  "requireAdmin req_user =
     (case req_user of
        None \<Rightarrow> Some (Response 401 (PError ''Authentication required''))
      | Some u \<Rightarrow>
          if u_role u \<noteq> ''ADMIN'' then Some (Response 403 (PError ''Admin access required''))
          else None)"


definition admin_route :: "(user \<Rightarrow> world \<Rightarrow> response \<times> db) \<Rightarrow> token \<Rightarrow> world \<Rightarrow> response \<times> db" where
  "admin_route h tok w =
     (case authenticate tok w of
        (Done u, w') \<Rightarrow> (case requireAdmin (Some u) of Some r \<Rightarrow> (r, fst w') | None \<Rightarrow> h u w')
      | (Reply r, w') \<Rightarrow> (r, fst w')
      | (Thrown, w') \<Rightarrow> (Response 401 (PError ''Invalid or expired token''), fst w'))"

section \<open>Validators\<close>

definition isLength :: "nat \<Rightarrow> nat \<Rightarrow> string \<Rightarrow> bool" where
  "isLength lo hi s = (lo \<le> length s \<and> length s \<le> hi)"

text \<open>\<open>.optional().isLength({min, max})\<close>: an absent field passes.\<close>

definition optional_isLength :: "nat \<Rightarrow> nat \<Rightarrow> string option \<Rightarrow> bool" where
  "optional_isLength lo hi v = (case v of None \<Rightarrow> True | Some s \<Rightarrow> isLength lo hi s)"

text \<open>\<open>.trim().escape()\<close> on a field that is present.\<close>

definition sanitize :: "env \<Rightarrow> string option \<Rightarrow> string option" where
  "sanitize env v = map_option (\<lambda>s. escape env (trim env s)) v"

text \<open>JavaScript truthiness of an optional string: \<open>undefined\<close> and the empty string are falsy.\<close>

definition truthy :: "string option \<Rightarrow> bool" where
  "truthy v = (case v of None \<Rightarrow> False | Some s \<Rightarrow> s \<noteq> [])"

definition validation_failed :: response where
  "validation_failed = Response 400 (PError ''Validation failed'')"

section \<open>PUT /api/admin/cases/:id/status\<close>

record setStatus_body =
  b_status :: string
  b_reason :: "string option"

definition status_notifications :: "case_row \<Rightarrow> id \<Rightarrow> string \<Rightarrow> notification_row dbop list" where
  "status_notifications caseData cid status =
     notification_create (c_complainantId caseData) cid ''CASE_STATUS_UPDATE''
        ''Case Status Updated''
        (''Your case #'' @ c_caseNumber caseData @ '' status has been updated to '' @ status @ ''.'')
     # (case c_respondentId caseData of
          None \<Rightarrow> []
        | Some rid \<Rightarrow>
            [notification_create rid cid ''CASE_STATUS_UPDATE'' ''Case Status Updated''
               (''Case #'' @ c_caseNumber caseData @ '' status has been updated to '' @ status @ ''.'')])"

definition status_metadata :: "user \<Rightarrow> case_row \<Rightarrow> string \<Rightarrow> string option \<Rightarrow> (string \<times> json) list" where
  "status_metadata caller caseData status reason =
     [(''adminId'', JId (u_id caller)),
      (''previousStatus'', JStr (status_name (c_status caseData))),
      (''newStatus'', JStr status),
      (''reason'', (case reason of None \<Rightarrow> JNull | Some r \<Rightarrow> if r = [] then JNull else JStr r))]"

definition status_description :: "case_row \<Rightarrow> string \<Rightarrow> string option \<Rightarrow> string" where
  "status_description caseData status reason =
     ''Status changed from '' @ status_name (c_status caseData) @ '' to '' @ status
       @ (case reason of None \<Rightarrow> [] | Some r \<Rightarrow> if r = [] then [] else '' - '' @ r)"

definition setStatus :: "env \<Rightarrow> user \<Rightarrow> id \<Rightarrow> setStatus_body \<Rightarrow> world \<Rightarrow> response \<times> db" where
  "setStatus env caller cid body =
     handle ''Internal server error''
       (case parse_status (b_status body) of
          None \<Rightarrow> reply validation_failed
        | Some status \<Rightarrow>
            if \<not> optional_isLength 10 500 (b_reason body) then reply validation_failed
            else
              let reason = sanitize env (b_reason body) in
              io_bind (dbcall (case_findUnique cid)) (\<lambda>found.
                case found of
                  None \<Rightarrow> reply (Response 404 (PError ''Case not found''))
                | Some caseData \<Rightarrow>
                    io_bind (dbcall (case_update cid (\<lambda>c. c\<lparr>c_status := status\<rparr>))) (\<lambda>updatedCase.
                    io_bind (dbcall (caseHistory_create cid ''STATUS_UPDATED_BY_ADMIN''
                               (status_description caseData (b_status body) reason) None
                               (Some (status_metadata caller caseData (b_status body) reason)))) (\<lambda>entry.
                    io_bind (promise_all (status_notifications caseData cid (b_status body))) (\<lambda>sent.
                    io_return (Response 200 (PCase updatedCase)))))))"

section \<open>POST /api/cases\<close>

text \<open>
  A boolean field of a request body arrives as a JSON boolean or, from a multipart form,
  as a string. \<open>isBoolean\<close> accepts both; the handler then tests the raw value for
  truthiness, and a non-empty string is truthy.
\<close>

datatype jsvalue = JSBool bool | JSString string

definition isBoolean :: "jsvalue \<Rightarrow> bool" where
  "isBoolean v = (case v of JSBool b \<Rightarrow> True | JSString s \<Rightarrow> s \<in> set [''true'', ''false'', ''1'', ''0''])"

definition js_truthy :: "jsvalue \<Rightarrow> bool" where
  "js_truthy v = (case v of JSBool b \<Rightarrow> b | JSString s \<Rightarrow> s \<noteq> [])"

record upload =
  f_filename :: string
  f_originalname :: string
  f_mimetype :: string
  f_size :: nat

record createCase_body =
  cb_caseType :: string
  cb_issueDescription :: string
  cb_oppositePartyName :: string
  cb_oppositePartyEmail :: "string option"
  cb_oppositePartyPhone :: "string option"
  cb_oppositePartyAddress :: "string option"
  cb_isInCourt :: jsvalue
  cb_isInPoliceStation :: jsvalue
  cb_courtCaseNumber :: "string option"
  cb_firNumber :: "string option"
  cb_courtName :: "string option"
  cb_policeStationName :: "string option"
  cb_priority :: "string option"

definition optional_check :: "('a \<Rightarrow> bool) \<Rightarrow> 'a option \<Rightarrow> bool" where
  "optional_check P v = (case v of None \<Rightarrow> True | Some x \<Rightarrow> P x)"

text \<open>The validation chain of the route: every field check must pass.\<close>

definition valid_createCase :: "env \<Rightarrow> createCase_body \<Rightarrow> bool" where
  "valid_createCase env b =
     (cb_caseType b \<in> set [''FAMILY'', ''BUSINESS'', ''CRIMINAL'', ''PROPERTY'', ''CONTRACT'', ''OTHER'']
      \<and> isLength 50 2000 (cb_issueDescription b)
      \<and> isLength 2 100 (cb_oppositePartyName b)
      \<and> optional_check (isEmail env) (cb_oppositePartyEmail b)
      \<and> optional_isLength 10 20 (cb_oppositePartyPhone b)
      \<and> optional_isLength 10 200 (cb_oppositePartyAddress b)
      \<and> isBoolean (cb_isInCourt b)
      \<and> isBoolean (cb_isInPoliceStation b)
      \<and> optional_isLength 5 50 (cb_courtCaseNumber b)
      \<and> optional_isLength 5 50 (cb_firNumber b)
      \<and> optional_isLength 5 100 (cb_courtName b)
      \<and> optional_isLength 5 100 (cb_policeStationName b)
      \<and> optional_check (\<lambda>p. p \<in> set [''LOW'', ''MEDIUM'', ''HIGH'', ''URGENT'']) (cb_priority b))"

text \<open>The body as the handler destructures it, after the sanitizers of the chain.\<close>

definition sanitized_createCase :: "env \<Rightarrow> createCase_body \<Rightarrow> createCase_body" where
  "sanitized_createCase env b =
     b\<lparr>cb_issueDescription := escape env (trim env (cb_issueDescription b)),
       cb_oppositePartyName := escape env (trim env (cb_oppositePartyName b)),
       cb_oppositePartyEmail := map_option (normalizeEmail env) (cb_oppositePartyEmail b),
       cb_oppositePartyAddress := sanitize env (cb_oppositePartyAddress b),
       cb_courtCaseNumber := sanitize env (cb_courtCaseNumber b),
       cb_firNumber := sanitize env (cb_firNumber b),
       cb_courtName := sanitize env (cb_courtName b),
       cb_policeStationName := sanitize env (cb_policeStationName b)\<rparr>"

definition court_details_missing :: "createCase_body \<Rightarrow> bool" where
  "court_details_missing b =
     (js_truthy (cb_isInCourt b) \<and> (\<not> truthy (cb_courtCaseNumber b) \<or> \<not> truthy (cb_courtName b)))"

definition police_details_missing :: "createCase_body \<Rightarrow> bool" where
  "police_details_missing b =
     (js_truthy (cb_isInPoliceStation b) \<and> (\<not> truthy (cb_firNumber b) \<or> \<not> truthy (cb_policeStationName b)))"

text \<open>
  The lookup of the opposite party: a database call only when the email is truthy;
  \<open>respondentId\<close> stays \<open>null\<close> otherwise and when no user has the email.
\<close>

definition resolve_respondent :: "string option \<Rightarrow> id option io" where
  "resolve_respondent oppositePartyEmail =
     (if truthy oppositePartyEmail then
        io_bind (dbcall (user_findUnique_email (the oppositePartyEmail))) (\<lambda>oppositePartyUser.
          io_return (map_option u_id oppositePartyUser))
      else io_return None)"

definition case_create :: "env \<Rightarrow> id \<Rightarrow> id option \<Rightarrow> createCase_body \<Rightarrow> case_row dbop" where
  "case_create env complainant respondentId b d =
     (let row = \<lparr>c_id = db_next_id d,
                 c_caseNumber = mkCaseNumber env (db_clock d),
                 c_caseType = cb_caseType b,
                 c_issueDescription = cb_issueDescription b,
                 c_complainantId = complainant,
                 c_respondentId = respondentId,
                 c_oppositePartyName = cb_oppositePartyName b,
                 c_oppositePartyEmail = cb_oppositePartyEmail b,
                 c_oppositePartyPhone = cb_oppositePartyPhone b,
                 c_oppositePartyAddress = cb_oppositePartyAddress b,
                 c_isInCourt = js_truthy (cb_isInCourt b),
                 c_isInPoliceStation = js_truthy (cb_isInPoliceStation b),
                 c_courtCaseNumber = cb_courtCaseNumber b,
                 c_firNumber = cb_firNumber b,
                 c_courtName = cb_courtName b,
                 c_policeStationName = cb_policeStationName b,
                 c_priority = (case cb_priority b of None \<Rightarrow> ''MEDIUM'' | Some p \<Rightarrow> p),
                 c_status = PENDING,
                 c_respondentAccepted = None,
                 c_respondentResponse = None,
                 c_respondentResponseAt = None,
                 c_createdAt = db_clock d\<rparr>
      in Some (row, d\<lparr>db_cases := db_cases d @ [row],
                      db_next_id := db_next_id d + 1, db_clock := db_clock d + 1\<rparr>))"

definition startsWith :: "string \<Rightarrow> string \<Rightarrow> bool" where
  "startsWith s p = (take (length p) s = p)"

definition evidence_fileType :: "upload \<Rightarrow> string" where
  "evidence_fileType file =
     (if startsWith (f_mimetype file) ''image/'' then ''IMAGE''
      else if startsWith (f_mimetype file) ''video/'' then ''VIDEO''
      else if startsWith (f_mimetype file) ''audio/'' then ''AUDIO''
      else ''DOCUMENT'')"

fun evidence_rows :: "id \<Rightarrow> id \<Rightarrow> upload list \<Rightarrow> evidence_row list" where
  "evidence_rows cid n [] = []"
| "evidence_rows cid n (file # files) =
     \<lparr>e_id = n, e_fileName = f_filename file, e_originalName = f_originalname file,
      e_fileType = evidence_fileType file, e_fileSize = f_size file,
      e_fileUrl = ''/uploads/evidence/'' @ f_filename file, e_caseId = cid\<rparr>
     # evidence_rows cid (n + 1) files"

definition evidence_createMany :: "id \<Rightarrow> upload list \<Rightarrow> unit dbop" where
  "evidence_createMany cid files d =
     Some ((), d\<lparr>db_evidence := db_evidence d @ evidence_rows cid (db_next_id d) files,
                  db_next_id := db_next_id d + length files, db_clock := db_clock d + 1\<rparr>)"

definition createCase :: "env \<Rightarrow> user \<Rightarrow> createCase_body \<Rightarrow> upload list \<Rightarrow> world \<Rightarrow> response \<times> db" where
  "createCase env caller raw evidenceFiles =
     handle ''Internal server error during case registration''
       (if \<not> valid_createCase env raw then reply validation_failed
        else
          let b = sanitized_createCase env raw in
          if court_details_missing b then
            reply (Response 400 (PError
              ''Court case number and court name are required when case is in court''))
          else if police_details_missing b then
            reply (Response 400 (PError
              ''FIR number and police station name are required when case is with police''))
          else
            io_bind (resolve_respondent (cb_oppositePartyEmail b)) (\<lambda>respondentId.
            io_bind (dbcall (case_create env (u_id caller) respondentId b)) (\<lambda>newCase.
            io_bind (if evidenceFiles \<noteq> [] then dbcall (evidence_createMany (c_id newCase) evidenceFiles)
                     else io_return ()) (\<lambda>stored.
            io_bind (dbcall (caseHistory_create (c_id newCase) ''CASE_CREATED''
                       ''Case registered successfully'' (Some (u_id caller)) None)) (\<lambda>entry.
            io_bind (dbcall (notification_create (u_id caller) (c_id newCase) ''CASE_STATUS_UPDATE''
                       ''Case Registered Successfully''
                       (''Your case #'' @ c_caseNumber newCase
                          @ '' has been registered and is pending review.''))) (\<lambda>sent.
            io_bind (case respondentId of
                       None \<Rightarrow> io_return ()
                     | Some rid \<Rightarrow>
                         io_bind (dbcall (notification_create rid (c_id newCase) ''CASE_STATUS_UPDATE''
                                    ''New Case Filed Against You''
                                    (''A new case #'' @ c_caseNumber newCase
                                       @ '' has been filed against you. Please review and respond.''))) (\<lambda>sent2.
                         io_bind (dbcall (case_update (c_id newCase) (\<lambda>c. c\<lparr>c_status := AWAITING_RESPONSE\<rparr>))) (\<lambda>upd.
                         io_return ()))) (\<lambda>linked.
            io_bind (dbcall (case_findUnique (c_id newCase))) (\<lambda>caseWithEvidence.
            io_return (Response 201 (PCaseOpt caseWithEvidence))))))))))"

section \<open>GET /api/cases/:id\<close>

text \<open>
  The case detail, visible to the complainant and the respondent, with the case history
  included under \<open>orderBy: {createdAt: "desc"}\<close>.
\<close>

definition history_of :: "id \<Rightarrow> db \<Rightarrow> history_row list" where
  "history_of cid d = filter (\<lambda>h. h_caseId h = cid) (db_caseHistory d)"

definition orderBy_createdAt_desc :: "history_row list \<Rightarrow> history_row list" where
  "orderBy_createdAt_desc hs = rev (sort_key h_createdAt hs)"

definition case_findFirst_with_history ::
  "(case_row \<Rightarrow> bool) \<Rightarrow> (case_row \<times> history_row list) option dbop" where
  "case_findFirst_with_history P d =
     Some (map_option (\<lambda>c. (c, orderBy_createdAt_desc (history_of (c_id c) d))) (find P (db_cases d)), d)"

definition getCase :: "user \<Rightarrow> id \<Rightarrow> world \<Rightarrow> response \<times> db" where
  "getCase caller cid =
     handle ''Internal server error''
       (io_bind (dbcall (case_findFirst_with_history
                   (\<lambda>c. c_id c = cid
                        \<and> (c_complainantId c = u_id caller \<or> c_respondentId c = Some (u_id caller))))) (\<lambda>found.
          case found of
            None \<Rightarrow> reply (Response 404 (PError
                      ''Case not found or you do not have access to this case''))
          | Some (caseData, caseHistory) \<Rightarrow> io_return (Response 200 (PCaseDetail caseData caseHistory))))"

section \<open>POST /api/cases/:id/respond\<close>

record respond_body =
  rb_accepted :: jsvalue
  rb_response :: "string option"

text \<open>
  The update of the case row. \<open>respondentAccepted\<close> is a Boolean column: the client throws
  on any other value. A \<open>response\<close> that is \<open>undefined\<close> leaves its column as it is.
\<close>

definition case_update_response :: "id \<Rightarrow> jsvalue \<Rightarrow> string option \<Rightarrow> case_row dbop" where
  "case_update_response cid accepted response d =
     (case accepted of
        JSString s \<Rightarrow> None
      | JSBool a \<Rightarrow>
          case_update cid
            (\<lambda>c. c\<lparr>c_respondentAccepted := Some a,
                   c_respondentResponse := (case response of None \<Rightarrow> c_respondentResponse c | Some r \<Rightarrow> Some r),
                   c_respondentResponseAt := Some (db_clock d),
                   c_status := (if js_truthy accepted then ACCEPTED else UNRESOLVED)\<rparr>) d)"

definition respondToCase :: "env \<Rightarrow> user \<Rightarrow> id \<Rightarrow> respond_body \<Rightarrow> world \<Rightarrow> response \<times> db" where
  "respondToCase env caller cid body =
     handle ''Internal server error''
       (if \<not> (isBoolean (rb_accepted body) \<and> optional_isLength 10 1000 (rb_response body))
        then reply validation_failed
        else
          let accepted = rb_accepted body; response = sanitize env (rb_response body) in
          io_bind (dbcall (case_findFirst
                     (\<lambda>c. c_id c = cid \<and> c_respondentId c = Some (u_id caller)
                          \<and> c_status c = AWAITING_RESPONSE))) (\<lambda>found.
            case found of
              None \<Rightarrow> reply (Response 404 (PError
                        ''Case not found or you cannot respond to this case''))
            | Some caseData \<Rightarrow>
                io_bind (dbcall (case_update_response cid accepted response)) (\<lambda>updatedCase.
                io_bind (dbcall (caseHistory_create cid
                           (if js_truthy accepted then ''CASE_ACCEPTED'' else ''CASE_REJECTED'')
                           (''Respondent '' @ (if js_truthy accepted then ''accepted'' else ''rejected'')
                              @ '' the case'')
                           (Some (u_id caller)) None)) (\<lambda>entry.
                io_bind (dbcall (notification_create (c_complainantId caseData) cid
                           ''CASE_STATUS_UPDATE'' ''Case Response Received''
                           (''The opposite party has ''
                              @ (if js_truthy accepted then ''accepted'' else ''rejected'')
                              @ '' your case #'' @ c_caseNumber caseData @ ''.''))) (\<lambda>sent.
                io_return (Response 200 (PCase updatedCase)))))))"

section \<open>POST /api/cases/:id/witnesses\<close>

text \<open>Decimal digits of a number, for the template string \<open>`${witnesses.length} ...`\<close>.\<close>

function string_of_nat :: "nat \<Rightarrow> string" where
  "string_of_nat n =
     (if n < 10 then [char_of (48 + n)]
      else string_of_nat (n div 10) @ [char_of (48 + n mod 10)])"
  by pat_completeness auto
termination
  by (relation "measure id") auto

definition user_findMany_emails :: "string list \<Rightarrow> user list dbop" where
  "user_findMany_emails emails d = Some (filter (\<lambda>u. u_email u \<in> set emails) (db_users d), d)"

text \<open>
  The row built for each matched user. The query selects \<open>id\<close>, \<open>email\<close> and \<open>name\<close>
  only, so \<open>witness.phone || ""\<close> is the empty string.
\<close>

definition witnessData :: "id \<Rightarrow> user \<Rightarrow> id \<Rightarrow> witness_row" where
  "witnessData cid witness n =
     \<lparr>w_id = n, w_caseId = cid, w_name = u_name witness, w_email = u_email witness,
      w_phone = '''', w_relationship = ''Nominated Witness'', w_statement = None\<rparr>"

text \<open>
  \<open>prisma.witness.createMany({data, skipDuplicates: true})\<close>: a row that collides with a
  row of the table on a unique index is left out without an error, the others are
  inserted.
\<close>

fun witness_insert_all :: "(witness_row \<Rightarrow> witness_row \<Rightarrow> bool) \<Rightarrow> (id \<Rightarrow> witness_row) list \<Rightarrow> db \<Rightarrow> db" where
  "witness_insert_all conflict [] d = d"
| "witness_insert_all conflict (mk # rest) d =
     (let row = mk (db_next_id d) in
      witness_insert_all conflict rest
        (if list_ex (\<lambda>x. conflict x row) (db_witnesses d) then d
         else d\<lparr>db_witnesses := db_witnesses d @ [row], db_next_id := db_next_id d + 1\<rparr>))"

definition witness_createMany_skipDuplicates :: "env \<Rightarrow> (id \<Rightarrow> witness_row) list \<Rightarrow> unit dbop" where
  "witness_createMany_skipDuplicates env rows d =
     Some ((), (witness_insert_all (witness_conflict env) rows d)\<lparr>db_clock := db_clock d + 1\<rparr>)"

record witnesses_body =
  wb_witnessEmails :: "string list"

definition nominateWitnesses :: "env \<Rightarrow> user \<Rightarrow> id \<Rightarrow> witnesses_body \<Rightarrow> world \<Rightarrow> response \<times> db" where
  "nominateWitnesses env caller cid body =
     handle ''Internal server error''
       (if \<not> (1 \<le> length (wb_witnessEmails body) \<and> list_all (isEmail env) (wb_witnessEmails body))
        then reply validation_failed
        else
          let witnessEmails = map (normalizeEmail env) (wb_witnessEmails body) in
          io_bind (dbcall (case_findFirst
                     (\<lambda>c. c_id c = cid
                          \<and> (c_complainantId c = u_id caller \<or> c_respondentId c = Some (u_id caller))
                          \<and> c_status c = ACCEPTED))) (\<lambda>found.
            case found of
              None \<Rightarrow> reply (Response 404 (PError
                        ''Case not found or you cannot add witnesses to this case''))
            | Some caseData \<Rightarrow>
                io_bind (dbcall (user_findMany_emails witnessEmails)) (\<lambda>witnesses.
                  if length witnesses \<noteq> length witnessEmails then
                    reply (Response 400 (PError
                      ''Some witnesses are not registered users. All witnesses must be registered.''))
                  else
                    io_bind (dbcall (witness_createMany_skipDuplicates env
                               (map (witnessData cid) witnesses))) (\<lambda>created.
                    io_bind (dbcall (case_update cid (\<lambda>c. c\<lparr>c_status := WITNESSES_NOMINATED\<rparr>))) (\<lambda>upd.
                    io_bind (promise_all (map (\<lambda>witness.
                               notification_create (u_id witness) cid ''CASE_STATUS_UPDATE''
                                 ''Added as Witness''
                                 (''You have been added as a witness in case #''
                                    @ c_caseNumber caseData @ ''.'')) witnesses)) (\<lambda>sent.
                    io_bind (dbcall (caseHistory_create cid ''WITNESSES_ADDED''
                               (string_of_nat (length witnesses) @ '' witnesses nominated'')
                               (Some (u_id caller)) None)) (\<lambda>entry.
                    io_return (Response 200 (PUsers witnesses)))))))))"

section \<open>POST /api/admin/cases/:id/panel\<close>

record panel_body =
  pb_lawyerId :: "id option"
  pb_religiousScholarId :: "id option"
  pb_societyMemberId :: "id option"

definition case_findUnique_with_panel :: "id \<Rightarrow> (case_row \<times> panel_row option) option dbop" where
  "case_findUnique_with_panel cid d =
     Some (map_option (\<lambda>c. (c, find (\<lambda>p. p_caseId p = c_id c) (db_mediationPanels d)))
             (find (\<lambda>c. c_id c = cid) (db_cases d)), d)"

definition user_findMany_ids :: "id list \<Rightarrow> user list dbop" where
  "user_findMany_ids ids d = Some (filter (\<lambda>u. u_id u \<in> set ids) (db_users d), d)"

text \<open>\<open>[lawyerId, religiousScholarId, societyMemberId].filter(Boolean)\<close>\<close>

definition filter_Boolean :: "id option list \<Rightarrow> id list" where
  "filter_Boolean xs = concat (map (\<lambda>x. case x of None \<Rightarrow> [] | Some i \<Rightarrow> [i]) xs)"

definition mediationPanel_create :: "id \<Rightarrow> id \<Rightarrow> id option \<Rightarrow> id option \<Rightarrow> panel_row dbop" where
  "mediationPanel_create cid lawyerId religiousScholarId societyMemberId d =
     (let row = \<lparr>p_id = db_next_id d, p_caseId = cid, p_lawyerId = lawyerId,
                 p_religiousScholarId = religiousScholarId,
                 p_societyMemberId = societyMemberId, p_createdAt = db_clock d\<rparr>
      in Some (row, d\<lparr>db_mediationPanels := db_mediationPanels d @ [row],
                      db_next_id := db_next_id d + 1, db_clock := db_clock d + 1\<rparr>))"

definition optional_member :: "string \<Rightarrow> id option \<Rightarrow> (string \<times> json) list" where
  "optional_member key v = (case v of None \<Rightarrow> [] | Some i \<Rightarrow> [(key, JId i)])"

definition panel_metadata :: "user \<Rightarrow> panel_row \<Rightarrow> id \<Rightarrow> id option \<Rightarrow> id option \<Rightarrow> (string \<times> json) list" where
  "panel_metadata caller panel lawyerId religiousScholarId societyMemberId =
     [(''adminId'', JId (u_id caller)),
      (''panelId'', JId (p_id panel)),
      (''panelMembers'', JObj ((''lawyer'', JId lawyerId)
          # optional_member ''religiousScholar'' religiousScholarId
          @ optional_member ''societyMember'' societyMemberId))]"

definition panel_notifications :: "case_row \<Rightarrow> id \<Rightarrow> user list \<Rightarrow> notification_row dbop list" where
  "panel_notifications caseData cid panelMembers =
     notification_create (c_complainantId caseData) cid ''PANEL_ASSIGNMENT''
        ''Mediation Panel Created''
        (''A mediation panel has been created for your case #'' @ c_caseNumber caseData @ ''.'')
     # (case c_respondentId caseData of
          None \<Rightarrow> []
        | Some rid \<Rightarrow>
            [notification_create rid cid ''PANEL_ASSIGNMENT'' ''Mediation Panel Created''
               (''A mediation panel has been created for case #'' @ c_caseNumber caseData @ ''.'')])
     @ map (\<lambda>member.
              notification_create (u_id member) cid ''PANEL_ASSIGNMENT''
                ''Assigned to Mediation Panel''
                (''You have been assigned to a mediation panel for case #''
                   @ c_caseNumber caseData @ ''.'')) panelMembers"

definition createPanel :: "user \<Rightarrow> id \<Rightarrow> panel_body \<Rightarrow> world \<Rightarrow> response \<times> db" where
  "createPanel caller cid body =
     handle ''Internal server error''
       (case pb_lawyerId body of
          None \<Rightarrow> reply validation_failed
        | Some lawyerId \<Rightarrow>
            let religiousScholarId = pb_religiousScholarId body;
                societyMemberId = pb_societyMemberId body;
                requiredMemberIds = filter_Boolean [Some lawyerId, religiousScholarId, societyMemberId]
            in
            io_bind (dbcall (case_findUnique_with_panel cid)) (\<lambda>found.
              case found of
                None \<Rightarrow> reply (Response 404 (PError ''Case not found''))
              | Some (caseData, mediationPanel) \<Rightarrow>
                  if mediationPanel \<noteq> None then
                    reply (Response 409 (PError ''Mediation panel already exists for this case''))
                  else if c_status caseData \<noteq> WITNESSES_NOMINATED \<and> c_status caseData \<noteq> ACCEPTED then
                    reply (Response 400 (PError
                      ''Case must be in WITNESSES_NOMINATED or ACCEPTED status to create a panel''))
                  else
                    io_bind (dbcall (user_findMany_ids requiredMemberIds)) (\<lambda>panelMembers.
                      if length panelMembers \<noteq> length requiredMemberIds then
                        reply (Response 400 (PError ''One or more panel members not found''))
                      else
                        io_bind (dbcall (mediationPanel_create cid lawyerId religiousScholarId
                                   societyMemberId)) (\<lambda>panel.
                        io_bind (dbcall (case_update cid (\<lambda>c. c\<lparr>c_status := PANEL_CREATED\<rparr>))) (\<lambda>upd.
                        io_bind (dbcall (caseHistory_create cid ''PANEL_CREATED''
                                   ''Mediation panel created'' None
                                   (Some (panel_metadata caller panel lawyerId religiousScholarId
                                      societyMemberId)))) (\<lambda>entry.
                        io_bind (promise_all (panel_notifications caseData cid panelMembers)) (\<lambda>sent.
                        io_return (Response 201 (PPanel panel)))))))))"

section \<open>POST /api/auth/register\<close>

record register_body =
  rg_email :: string
  rg_password :: string
  rg_name :: string
  rg_phone :: "string option"

text \<open>
  The validation chain: \<open>phone\<close> is \<open>optional({nullable: true, checkFalsy: true})\<close>, so an
  empty phone is skipped like an absent one.
\<close>

definition valid_register :: "env \<Rightarrow> register_body \<Rightarrow> bool" where
  "valid_register env b =
     (isEmail env (rg_email b)
      \<and> 6 \<le> length (rg_password b)
      \<and> isLength 2 50 (rg_name b)
      \<and> (case rg_phone b of None \<Rightarrow> True | Some p \<Rightarrow> p = [] \<or> 3 \<le> length p))"

definition user_findFirst_email_or_phone :: "string \<Rightarrow> string option \<Rightarrow> user option dbop" where
  "user_findFirst_email_or_phone email phone d =
     Some (find (\<lambda>u. u_email u = email \<or> (truthy phone \<and> u_phone u = phone)) (db_users d), d)"

definition user_create :: "string \<Rightarrow> string \<Rightarrow> string option \<Rightarrow> string \<Rightarrow> user dbop" where
  "user_create email name phone role d =
     (let row = \<lparr>u_id = db_next_id d, u_email = email, u_name = name, u_phone = phone,
                 u_role = role\<rparr>
      in Some (row, d\<lparr>db_users := db_users d @ [row],
                      db_next_id := db_next_id d + 1, db_clock := db_clock d + 1\<rparr>))"

definition register :: "env \<Rightarrow> register_body \<Rightarrow> world \<Rightarrow> response \<times> db" where
  "register env body =
     handle ''Internal server error during registration''
       (if \<not> valid_register env body then reply validation_failed
        else
          let email = normalizeEmail env (rg_email body);
              name = escape env (trim env (rg_name body));
              phone = rg_phone body
          in
          io_bind (dbcall (user_findFirst_email_or_phone email phone)) (\<lambda>existingUser.
            if existingUser \<noteq> None then
              reply (Response 409 (PError ''User already exists with this email or phone number''))
            else
              io_bind (dbcall (user_create email name phone
                         (if email = ''admin@resolveit.com'' then ''ADMIN'' else ''USER''))) (\<lambda>user.
              io_return (Response 201 (PUser user)))))"

section \<open>The routes that write the case table\<close>



section \<open>Example data\<close>

text \<open>
  A concrete environment and database for the examples: the sanitizers are the identity
  except \<open>normalizeEmail\<close>, which lower-cases the address as the library does for a
  domain without provider-specific rules; the witness table is unique on case and email.
\<close>

definition lower_char :: "char \<Rightarrow> char" where
  "lower_char c =
     (case map_of (zip ''ABCDEFGHIJKLMNOPQRSTUVWXYZ'' ''abcdefghijklmnopqrstuvwxyz'') c of
        Some l \<Rightarrow> l
      | None \<Rightarrow> c)"

definition env0 :: env where
  "env0 = \<lparr>isEmail = (\<lambda>s. CHR ''@'' \<in> set s), normalizeEmail = map lower_char,
     trim = (\<lambda>s. s), escape = (\<lambda>s. s), mkCaseNumber = (\<lambda>n. ''RES-2026-'' @ string_of_nat n),
     witness_conflict = (\<lambda>a b. w_caseId a = w_caseId b \<and> w_email a = w_email b)\<rparr>"

definition alice :: user where
  "alice = \<lparr>u_id = 1, u_email = ''alice@example.com'', u_name = ''Alice'', u_phone = None,
     u_role = ''USER''\<rparr>"

definition bob :: user where
  "bob = \<lparr>u_id = 2, u_email = ''bob@example.com'', u_name = ''Bob'', u_phone = None,
     u_role = ''USER''\<rparr>"

definition root :: user where
  "root = \<lparr>u_id = 3, u_email = ''admin@resolveit.com'', u_name = ''Admin'', u_phone = None,
     u_role = ''ADMIN''\<rparr>"

definition wendy :: user where
  "wendy = \<lparr>u_id = 4, u_email = ''wendy@example.com'', u_name = ''Wendy'', u_phone = None,
     u_role = ''USER''\<rparr>"

text \<open>Case 10: Alice against Bob, in a given status.\<close>

definition case10 :: "CaseStatus \<Rightarrow> case_row" where
  "case10 st = \<lparr>c_id = 10, c_caseNumber = ''RES-2026-000010'', c_caseType = ''PROPERTY'',
     c_issueDescription = ''fence'', c_complainantId = 1, c_respondentId = Some 2,
     c_oppositePartyName = ''Bob'', c_oppositePartyEmail = Some ''bob@example.com'',
     c_oppositePartyPhone = None, c_oppositePartyAddress = None, c_isInCourt = False,
     c_isInPoliceStation = False, c_courtCaseNumber = None, c_firNumber = None,
     c_courtName = None, c_policeStationName = None, c_priority = ''MEDIUM'', c_status = st,
     c_respondentAccepted = None, c_respondentResponse = None, c_respondentResponseAt = None,
     c_createdAt = 5\<rparr>"

definition db0 :: "CaseStatus \<Rightarrow> db" where
  "db0 st = \<lparr>db_users = [alice, bob, root, wendy], db_cases = [case10 st], db_evidence = [],
     db_caseHistory = [], db_notifications = [], db_witnesses = [], db_mediationPanels = [],
     db_next_id = 100, db_clock = 50\<rparr>"

definition entry :: "id \<Rightarrow> string \<Rightarrow> nat \<Rightarrow> history_row" where
  "entry n action t = \<lparr>h_id = n, h_caseId = 10, h_action = action, h_description = '''',
     h_performedById = None, h_metadata = None, h_createdAt = t\<rparr>"

definition db_two_entries :: db where
  "db_two_entries =
     (db0 ACCEPTED)\<lparr>db_caseHistory := [entry 20 ''CASE_CREATED'' 6, entry 21 ''CASE_ACCEPTED'' 7]\<rparr>"

text \<open>The history list a case-detail response carries.\<close>

definition returned_history :: "response \<Rightarrow> history_row list" where
  "returned_history r = (case body_of r of PCaseDetail c hs \<Rightarrow> hs | _ \<Rightarrow> [])"

text \<open>A database call that inserts one notification.\<close>

definition is_notification :: "notification_row dbop \<Rightarrow> bool" where
  "is_notification f = (\<exists>uid cid type title message. f = notification_create uid cid type title message)"

text \<open>The user a registration response carries.\<close>

definition created_user :: "response \<Rightarrow> user option" where
  "created_user r = (case body_of r of PUser u \<Rightarrow> Some u | _ \<Rightarrow> None)"

definition db_alice_bob :: db where
  "db_alice_bob = (db0 PENDING)\<lparr>db_users := [alice, bob]\<rparr>"

definition register_body0 :: "string \<Rightarrow> register_body" where
  "register_body0 e = \<lparr>rg_email = e, rg_password = ''secret1'', rg_name = ''Eve'', rg_phone = None\<rparr>"

text \<open>
  The respondent that \<open>resolve_respondent\<close> finds in a given database: the user with the
  (sanitized) opposite-party email, when the email is truthy and such a user exists.
\<close>

definition lookup_respondent :: "string option \<Rightarrow> db \<Rightarrow> id option" where
  "lookup_respondent oppositePartyEmail d =
     (if truthy oppositePartyEmail
      then map_option u_id (find (\<lambda>u. u_email u = the oppositePartyEmail) (db_users d))
      else None)"

text \<open>A valid case registration against a given opposite-party email.\<close>

definition case_body0 :: "string option \<Rightarrow> createCase_body" where
  "case_body0 e = \<lparr>cb_caseType = ''PROPERTY'',
     cb_issueDescription = ''The fence my neighbour built last spring stands one metre inside my garden.'',
     cb_oppositePartyName = ''Bob'', cb_oppositePartyEmail = e, cb_oppositePartyPhone = None,
     cb_oppositePartyAddress = None, cb_isInCourt = JSBool False,
     cb_isInPoliceStation = JSBool False, cb_courtCaseNumber = None, cb_firNumber = None,
     cb_courtName = None, cb_policeStationName = None, cb_priority = None\<rparr>"

text \<open>
  Case 10 after Alice has nominated Wendy, and after the admin has then set the case
  back to ACCEPTED; and a database where case 10 is ACCEPTED and Wendy is already a
  witness of it.
\<close>

definition db_nominated :: db where
  "db_nominated = snd (nominateWitnesses env0 alice 10
      \<lparr>wb_witnessEmails = [''wendy@example.com'']\<rparr> (db0 ACCEPTED, None))"

definition db_reopened :: db where
  "db_reopened = snd (setStatus env0 root 10 \<lparr>b_status = ''ACCEPTED'', b_reason = None\<rparr>
      (db_nominated, None))"

definition db_with_witness :: db where
  "db_with_witness = (db0 ACCEPTED)\<lparr>db_witnesses :=
     [\<lparr>w_id = 30, w_caseId = 10, w_name = ''Wendy'', w_email = ''wendy@example.com'',
       w_phone = '''', w_relationship = ''Nominated Witness'', w_statement = None\<rparr>]\<rparr>"

text \<open>A field of the metadata object of a history entry, when the entry has one.\<close>

definition meta_field :: "history_row \<Rightarrow> string \<Rightarrow> json option" where
  "meta_field h key = (case h_metadata h of None \<Rightarrow> None | Some m \<Rightarrow> map_of m key)"

text \<open>A panel for case 10: the admin as lawyer and Wendy as society member.\<close>

definition panel_body0 :: panel_body where
  "panel_body0 = \<lparr>pb_lawyerId = Some 3, pb_religiousScholarId = None, pb_societyMemberId = Some 4\<rparr>"

section \<open>Faults\<close>


section \<open>Cancelled cases\<close>






text \<open>
  The registration of \<open>case_body0\<close> as the client sends it with an attachment: a multipart
  form, where the two flags are the strings \<open>"false"\<close>.
\<close>

definition multipart_body0 :: createCase_body where
  "multipart_body0 = (case_body0 None)\<lparr>cb_isInCourt := JSString ''false'',
     cb_isInPoliceStation := JSString ''false''\<rparr>"

definition photo :: upload where
  "photo = \<lparr>f_filename = ''evidence-1.png'', f_originalname = ''fence.png'',
     f_mimetype = ''image/png'', f_size = 2048\<rparr>"

section \<open>Properties\<close>

subsection \<open>Unfolding the handlers on concrete inputs\<close>

lemmas run_defs = handle_def io_bind_def io_return_def reply_def dbcall_def promise_all_def
  case_findUnique_def case_findFirst_def case_update_def caseHistory_create_def
  notification_create_def Let_def sanitize_def optional_isLength_def isLength_def
  validation_failed_def parse_status_def all_statuses_def

lemmas data_defs = env0_def db0_def case10_def alice_def bob_def root_def wendy_def

lemmas nominate_defs = nominateWitnesses_def user_findMany_emails_def
  witness_createMany_skipDuplicates_def witnessData_def

lemmas createCase_defs = createCase_def valid_createCase_def sanitized_createCase_def
  court_details_missing_def police_details_missing_def resolve_respondent_def
  user_findUnique_email_def case_create_def evidence_createMany_def optional_check_def
  isBoolean_def js_truthy_def truthy_def case_body0_def

lemmas createPanel_defs = createPanel_def case_findUnique_with_panel_def user_findMany_ids_def
  filter_Boolean_def mediationPanel_create_def panel_metadata_def panel_notifications_def
  optional_member_def panel_body0_def

lemmas respond_defs = respondToCase_def case_update_response_def isBoolean_def js_truthy_def

subsection \<open>Runs without a fault\<close>

lemma dbcall_no_fault:
  "dbcall f (d, None) = (case f d of None \<Rightarrow> (Thrown, (d, None)) | Some (a, d') \<Rightarrow> (Done a, (d', None)))"
  by (simp add: dbcall_def split: option.splits)

lemma find_Some_satisfying:
  assumes "c \<in> set cs" and "P c"
  shows "\<exists>c'. find P cs = Some c' \<and> P c'"
  using assms by (induction cs) auto

lemma parse_status_name: "parse_status s = Some st \<Longrightarrow> status_name st = s"
  by (auto simp: parse_status_def find_Some_iff)

lemma parse_status_of_name: "parse_status (status_name st) = Some st"
  by (cases st) (simp_all add: parse_status_def all_statuses_def)

lemma find_map_update_id:
  assumes "find (\<lambda>c. c_id c = cid) cs = Some c" and "\<And>x. c_id (f x) = c_id x"
  shows "find (\<lambda>c. c_id c = cid) (map (\<lambda>x. if c_id x = cid then f x else x) cs) = Some (f c)"
  using assms by (induction cs) (auto split: if_splits)

lemma dbcall_ok: "f d = Some (a, d') \<Longrightarrow> dbcall f (d, None) = (Done a, (d', None))"
  by (simp add: dbcall_def)

lemma case_update_effect:
  assumes "find (\<lambda>c. c_id c = cid) (db_cases d) = Some c"
  obtains d' where "case_update cid f d = Some (f c, d')"
    and "db_cases d' = map (\<lambda>x. if c_id x = cid then f x else x) (db_cases d)"
    and "db_caseHistory d' = db_caseHistory d"
    and "db_notifications d' = db_notifications d"
    and "db_witnesses d' = db_witnesses d"
    and "db_users d' = db_users d"
    and "db_mediationPanels d' = db_mediationPanels d"
    and "db_next_id d' = db_next_id d"
  using assms by (simp add: case_update_def)

lemma caseHistory_create_effect:
  obtains h d' where "caseHistory_create cid action description performedBy metadata d = Some (h, d')"
    and "h_caseId h = cid" and "h_action h = action" and "h_description h = description"
    and "h_performedById h = performedBy" and "h_metadata h = metadata"
    and "db_caseHistory d' = db_caseHistory d @ [h]"
    and "db_cases d' = db_cases d"
    and "db_notifications d' = db_notifications d"
    and "db_witnesses d' = db_witnesses d"
    and "db_users d' = db_users d"
    and "db_mediationPanels d' = db_mediationPanels d"
  by (simp add: caseHistory_create_def Let_def)

lemma notification_create_effect:
  obtains n d' where "notification_create uid cid type title message d = Some (n, d')"
    and "n_userId n = uid" and "n_caseId n = Some cid"
    and "db_notifications d' = db_notifications d @ [n]"
    and "db_caseHistory d' = db_caseHistory d"
    and "db_cases d' = db_cases d"
    and "db_witnesses d' = db_witnesses d"
    and "db_users d' = db_users d"
    and "db_mediationPanels d' = db_mediationPanels d"
  by (simp add: notification_create_def Let_def)


lemma is_notification_create [simp]:
  "is_notification (notification_create uid cid type title message)"
  unfolding is_notification_def by blast

lemma promise_all_run_notifications:
  assumes "list_all is_notification fs"
  shows "\<exists>rows d'. promise_all_run fs (d, None) = (Some rows, (d', None))
     \<and> length rows = length fs
     \<and> db_notifications d' = db_notifications d @ rows
     \<and> db_caseHistory d' = db_caseHistory d
     \<and> db_cases d' = db_cases d
     \<and> db_witnesses d' = db_witnesses d
     \<and> db_users d' = db_users d
     \<and> db_mediationPanels d' = db_mediationPanels d"
  using assms
proof (induction fs arbitrary: d)
  case Nil
  then show ?case by simp
next
  case (Cons f fs)
  from Cons.prems obtain uid cid type title message
    where f: "f = notification_create uid cid type title message"
    by (auto simp: is_notification_def)
  obtain n d1 where step: "f d = Some (n, d1)"
    and d1: "db_notifications d1 = db_notifications d @ [n]" "db_caseHistory d1 = db_caseHistory d"
      "db_cases d1 = db_cases d" "db_witnesses d1 = db_witnesses d" "db_users d1 = db_users d"
      "db_mediationPanels d1 = db_mediationPanels d"
    unfolding f by (rule notification_create_effect [of uid cid type title message d]) 
  from Cons.prems have "list_all is_notification fs" by simp
  from Cons.IH [OF this, of d1] obtain rows d' where
    rest: "promise_all_run fs (d1, None) = (Some rows, (d', None))"
    and d': "length rows = length fs" "db_notifications d' = db_notifications d1 @ rows"
      "db_caseHistory d' = db_caseHistory d1" "db_cases d' = db_cases d1"
      "db_witnesses d' = db_witnesses d1" "db_users d' = db_users d1"
      "db_mediationPanels d' = db_mediationPanels d1"
    by blast
  have "promise_all_run (f # fs) (d, None) = (Some (n # rows), (d', None))"
    by (simp add: dbcall_no_fault step rest)
  with d1 d' show ?case by simp
qed

lemma promise_all_notifications:
  assumes "list_all is_notification fs"
  obtains rows d' where "promise_all fs (d, None) = (Done rows, (d', None))"
    and "length rows = length fs"
    and "db_notifications d' = db_notifications d @ rows"
    and "db_caseHistory d' = db_caseHistory d"
    and "db_cases d' = db_cases d"
    and "db_witnesses d' = db_witnesses d"
    and "db_users d' = db_users d"
    and "db_mediationPanels d' = db_mediationPanels d"
proof -
  from promise_all_run_notifications [OF assms, of d] obtain rows d' where
    "promise_all_run fs (d, None) = (Some rows, (d', None))" "length rows = length fs"
    "db_notifications d' = db_notifications d @ rows" "db_caseHistory d' = db_caseHistory d"
    "db_cases d' = db_cases d" "db_witnesses d' = db_witnesses d" "db_users d' = db_users d"
    "db_mediationPanels d' = db_mediationPanels d"
    by blast
  then show ?thesis by (intro that [of rows d']) (simp_all add: promise_all_def)
qed

subsection \<open>The history of a case is returned newest first\<close>

lemma sorted_wrt_ge_rev_sort_key:
  "sorted_wrt (\<lambda>a b. b \<le> a) (map f (rev (sort_key f xs)))"
proof -
  have "sorted (map f (sort_key f xs))" by simp
  then have "sorted_wrt (\<lambda>a b. b \<le> a) (rev (map f (sort_key f xs)))"
    by (simp only: sorted_wrt_rev)
  then show ?thesis by (simp only: rev_map)
qed

text \<open>
  C7 (as amended). The case-detail route is the only read of the audit history. For a
  caller who is the complainant or the respondent of the case it answers 200 with exactly
  the history entries of that case, ordered by creation time from the newest to the
  oldest (\<open>orderBy: {createdAt: "desc"}\<close>), and leaves the database as it was.
\<close>

theorem getCase_history_newest_first:
  assumes "c \<in> set (db_cases d)" and "c_id c = cid"
    and "c_complainantId c = u_id caller \<or> c_respondentId c = Some (u_id caller)"
  shows "\<exists>c' hs. getCase caller cid (d, None) = (Response 200 (PCaseDetail c' hs), d)
           \<and> c_id c' = cid
           \<and> sorted_wrt (\<lambda>a b. b \<le> a) (map h_createdAt hs)
           \<and> mset hs = mset (history_of cid d)"
proof -
  let ?P = "\<lambda>c. c_id c = cid \<and> (c_complainantId c = u_id caller \<or> c_respondentId c = Some (u_id caller))"
  from assms have "\<exists>c'. find ?P (db_cases d) = Some c' \<and> ?P c'"
    by (intro find_Some_satisfying) auto
  then obtain c' where f: "find ?P (db_cases d) = Some c'" and "?P c'" by blast
  then have "getCase caller cid (d, None)
      = (Response 200 (PCaseDetail c' (orderBy_createdAt_desc (history_of cid d))), d)"
    by (simp add: getCase_def handle_def io_bind_def dbcall_no_fault
        case_findFirst_with_history_def io_return_def)
  moreover have "sorted_wrt (\<lambda>a b. b \<le> a) (map h_createdAt (orderBy_createdAt_desc (history_of cid d)))"
    unfolding orderBy_createdAt_desc_def by (rule sorted_wrt_ge_rev_sort_key)
  moreover have "mset (orderBy_createdAt_desc (history_of cid d)) = mset (history_of cid d)"
    by (simp add: orderBy_createdAt_desc_def)
  ultimately show ?thesis using \<open>?P c'\<close> by simp
qed

theorem getCase_history_newest_first_witness:
  "\<exists>c' hs. getCase alice 10 (db_two_entries, None) = (Response 200 (PCaseDetail c' hs), db_two_entries)
           \<and> c_id c' = 10
           \<and> sorted_wrt (\<lambda>a b. b \<le> a) (map h_createdAt hs)
           \<and> mset hs = mset (history_of 10 db_two_entries)"
  using getCase_history_newest_first [of "case10 ACCEPTED" db_two_entries 10 alice]
  by (simp add: db_two_entries_def db0_def case10_def alice_def)

text \<open>
  C7 as stated fails: with two entries created at times 6 and 7, Alice's read of her case
  returns them in the order 7, 6, which is not oldest-to-newest.
\<close>

theorem getCase_oldest_first_counterexample:
  "status_code (fst (getCase alice 10 (db_two_entries, None))) = 200
   \<and> map h_createdAt (returned_history (fst (getCase alice 10 (db_two_entries, None)))) = [7, 6]
   \<and> \<not> sorted (map h_createdAt (returned_history (fst (getCase alice 10 (db_two_entries, None)))))"
  by (simp add: getCase_def handle_def io_bind_def dbcall_no_fault case_findFirst_with_history_def
      io_return_def db_two_entries_def db0_def case10_def alice_def entry_def returned_history_def
      orderBy_createdAt_desc_def history_of_def)

subsection \<open>The admin status override\<close>

lemma status_notifications_are_notifications:
  "list_all is_notification (status_notifications c cid s)"
  by (simp add: status_notifications_def split: option.splits)

text \<open>The successful run of the admin override, table by table.\<close>

lemma setStatus_run:
  assumes "parse_status (b_status body) = Some target"
    and "optional_isLength 10 500 (b_reason body)"
    and "find (\<lambda>c. c_id c = cid) (db_cases d) = Some c"
  obtains h rows d' where
    "setStatus env caller cid body (d, None) = (Response 200 (PCase (c\<lparr>c_status := target\<rparr>)), d')"
    and "db_cases d' = map (\<lambda>x. if c_id x = cid then x\<lparr>c_status := target\<rparr> else x) (db_cases d)"
    and "db_caseHistory d' = db_caseHistory d @ [h]"
    and "h_caseId h = cid" and "h_action h = ''STATUS_UPDATED_BY_ADMIN''"
    and "h_performedById h = None"
    and "h_metadata h = Some (status_metadata caller c (b_status body) (sanitize env (b_reason body)))"
    and "db_notifications d' = db_notifications d @ rows"
    and "length rows = length (status_notifications c cid (b_status body))"
    and "db_witnesses d' = db_witnesses d"
    and "db_users d' = db_users d"
    and "db_mediationPanels d' = db_mediationPanels d"
proof -
  obtain d1 where 1: "case_update cid (\<lambda>c. c\<lparr>c_status := target\<rparr>) d = Some (c\<lparr>c_status := target\<rparr>, d1)"
    and d1: "db_cases d1 = map (\<lambda>x. if c_id x = cid then x\<lparr>c_status := target\<rparr> else x) (db_cases d)"
      "db_caseHistory d1 = db_caseHistory d" "db_notifications d1 = db_notifications d"
      "db_witnesses d1 = db_witnesses d" "db_users d1 = db_users d"
      "db_mediationPanels d1 = db_mediationPanels d"
    by (rule case_update_effect [OF assms(3), of "\<lambda>c. c\<lparr>c_status := target\<rparr>"])
  obtain h d2 where 2: "caseHistory_create cid ''STATUS_UPDATED_BY_ADMIN''
        (status_description c (b_status body) (sanitize env (b_reason body))) None
        (Some (status_metadata caller c (b_status body) (sanitize env (b_reason body)))) d1 = Some (h, d2)"
    and h: "h_caseId h = cid" "h_action h = ''STATUS_UPDATED_BY_ADMIN''" "h_performedById h = None"
      "h_metadata h = Some (status_metadata caller c (b_status body) (sanitize env (b_reason body)))"
    and d2: "db_caseHistory d2 = db_caseHistory d1 @ [h]" "db_cases d2 = db_cases d1"
      "db_notifications d2 = db_notifications d1" "db_witnesses d2 = db_witnesses d1"
      "db_users d2 = db_users d1" "db_mediationPanels d2 = db_mediationPanels d1"
    by (rule caseHistory_create_effect) 
  obtain rows d3 where 3: "promise_all (status_notifications c cid (b_status body)) (d2, None)
        = (Done rows, (d3, None))"
    and d3: "length rows = length (status_notifications c cid (b_status body))"
      "db_notifications d3 = db_notifications d2 @ rows" "db_caseHistory d3 = db_caseHistory d2"
      "db_cases d3 = db_cases d2" "db_witnesses d3 = db_witnesses d2" "db_users d3 = db_users d2"
      "db_mediationPanels d3 = db_mediationPanels d2"
    by (rule promise_all_notifications [OF status_notifications_are_notifications])
  have run: "setStatus env caller cid body (d, None) = (Response 200 (PCase (c\<lparr>c_status := target\<rparr>)), d3)"
    using assms
    by (simp add: setStatus_def handle_def io_bind_def dbcall_no_fault io_return_def
        case_findUnique_def Let_def 1 2 3)
  show ?thesis
    by (rule that [where h = h and rows = rows and d' = d3]) (simp_all add: run d1 d2 d3 h)
qed



lemma list_all_case_update:
  assumes "\<And>x. c_id (f x) = c_id x" and "\<And>x. c_status (f x) = target"
  shows "list_all (\<lambda>x. c_id x = cid \<longrightarrow> c_status x = target)
     (map (\<lambda>x. if c_id x = cid then f x else x) cs)"
  by (induction cs) (simp_all add: assms)

text \<open>
  C8 (as amended). For every existing case, whatever its status, and every target status
  of the enum, the admin override with an absent reason or one of 10 to 500 characters
  answers 200, sets the case to the target and appends exactly one history entry, of
  action \<open>STATUS_UPDATED_BY_ADMIN\<close>, whose metadata carries the status the case had
  before as \<open>previousStatus\<close> and the target as \<open>newStatus\<close>.
\<close>

theorem setStatus_override_audited:
  assumes "parse_status (b_status body) = Some target"
    and "optional_isLength 10 500 (b_reason body)"
    and "find (\<lambda>c. c_id c = cid) (db_cases d) = Some c"
  shows "\<exists>c' h meta d'. setStatus env caller cid body (d, None) = (Response 200 (PCase c'), d')
      \<and> c_id c' = cid \<and> c_status c' = target
      \<and> find (\<lambda>x. c_id x = cid) (db_cases d') = Some c'
      \<and> list_all (\<lambda>x. c_id x = cid \<longrightarrow> c_status x = target) (db_cases d')
      \<and> db_caseHistory d' = db_caseHistory d @ [h]
      \<and> h_caseId h = cid \<and> h_action h = ''STATUS_UPDATED_BY_ADMIN''
      \<and> h_metadata h = Some meta
      \<and> map_of meta ''previousStatus'' = Some (JStr (status_name (c_status c)))
      \<and> map_of meta ''newStatus'' = Some (JStr (status_name target))"
proof -
  let ?meta = "status_metadata caller c (b_status body) (sanitize env (b_reason body))"
  have name: "status_name target = b_status body"
    using assms(1) by (rule parse_status_name)
  have cid: "c_id c = cid"
    using assms(3) by (auto simp: find_Some_iff)
  obtain h rows d' where run: "setStatus env caller cid body (d, None)
        = (Response 200 (PCase (c\<lparr>c_status := target\<rparr>)), d')"
    and cases: "db_cases d' = map (\<lambda>x. if c_id x = cid then x\<lparr>c_status := target\<rparr> else x) (db_cases d)"
    and hist: "db_caseHistory d' = db_caseHistory d @ [h]"
    and h: "h_caseId h = cid" "h_action h = ''STATUS_UPDATED_BY_ADMIN''" "h_metadata h = Some ?meta"
    by (rule setStatus_run [OF assms, of env caller])
  have found: "find (\<lambda>x. c_id x = cid) (db_cases d') = Some (c\<lparr>c_status := target\<rparr>)"
    unfolding cases by (rule find_map_update_id [OF assms(3), of "\<lambda>x. x\<lparr>c_status := target\<rparr>"]) simp
  have all: "list_all (\<lambda>x. c_id x = cid \<longrightarrow> c_status x = target) (db_cases d')"
    unfolding cases by (rule list_all_case_update) simp_all
  have meta: "map_of ?meta ''previousStatus'' = Some (JStr (status_name (c_status c)))"
    "map_of ?meta ''newStatus'' = Some (JStr (status_name target))"
    by (simp_all add: status_metadata_def name)
  show ?thesis
  proof (intro exI conjI)
    show "setStatus env caller cid body (d, None) = (Response 200 (PCase (c\<lparr>c_status := target\<rparr>)), d')"
      by (rule run)
    show "c_id (c\<lparr>c_status := target\<rparr>) = cid" by (simp add: cid)
    show "c_status (c\<lparr>c_status := target\<rparr>) = target" by simp
    show "find (\<lambda>x. c_id x = cid) (db_cases d') = Some (c\<lparr>c_status := target\<rparr>)" by (rule found)
    show "list_all (\<lambda>x. c_id x = cid \<longrightarrow> c_status x = target) (db_cases d')" by (rule all)
    show "db_caseHistory d' = db_caseHistory d @ [h]" by (rule hist)
    show "h_caseId h = cid" by (rule h)
    show "h_action h = ''STATUS_UPDATED_BY_ADMIN''" by (rule h)
    show "h_metadata h = Some ?meta" by (rule h)
    show "map_of ?meta ''previousStatus'' = Some (JStr (status_name (c_status c)))" by (rule meta)
    show "map_of ?meta ''newStatus'' = Some (JStr (status_name target))" by (rule meta)
  qed
qed

theorem setStatus_override_audited_witness:
  "parse_status (b_status \<lparr>b_status = ''RESOLVED'', b_reason = None\<rparr>) = Some RESOLVED
   \<and> optional_isLength 10 500 (b_reason \<lparr>b_status = ''RESOLVED'', b_reason = None\<rparr>)
   \<and> find (\<lambda>c. c_id c = 10) (db_cases (db0 PENDING)) = Some (case10 PENDING)
   \<and> (\<exists>c' h meta d'.
        setStatus env0 root 10 \<lparr>b_status = ''RESOLVED'', b_reason = None\<rparr> (db0 PENDING, None)
          = (Response 200 (PCase c'), d')
      \<and> c_id c' = 10 \<and> c_status c' = RESOLVED
      \<and> find (\<lambda>x. c_id x = 10) (db_cases d') = Some c'
      \<and> list_all (\<lambda>x. c_id x = 10 \<longrightarrow> c_status x = RESOLVED) (db_cases d')
      \<and> db_caseHistory d' = db_caseHistory (db0 PENDING) @ [h]
      \<and> h_caseId h = 10 \<and> h_action h = ''STATUS_UPDATED_BY_ADMIN''
      \<and> h_metadata h = Some meta
      \<and> map_of meta ''previousStatus'' = Some (JStr (status_name (c_status (case10 PENDING))))
      \<and> map_of meta ''newStatus'' = Some (JStr (status_name RESOLVED)))"
proof -
  have 1: "parse_status (b_status \<lparr>b_status = ''RESOLVED'', b_reason = None\<rparr>) = Some RESOLVED"
    by (simp add: parse_status_def all_statuses_def)
  have 2: "optional_isLength 10 500 (b_reason \<lparr>b_status = ''RESOLVED'', b_reason = None\<rparr>)"
    by (simp add: optional_isLength_def)
  have 3: "find (\<lambda>c. c_id c = 10) (db_cases (db0 PENDING)) = Some (case10 PENDING)"
    by (simp add: db0_def case10_def)
  from setStatus_override_audited [OF 1 2 3, of env0 root] 1 2 3 show ?thesis
    by (intro conjI) assumption+
qed

text \<open>
  C8 as stated fails: the override of case 10 from PENDING to RESOLVED succeeds and
  records one history entry, but its action kind is \<open>STATUS_UPDATED_BY_ADMIN\<close>; no
  entry of kind \<open>ADMIN_OVERRIDE\<close> is written.
\<close>

theorem setStatus_action_kind_counterexample:
  "status_code (fst (setStatus env0 root 10 \<lparr>b_status = ''RESOLVED'', b_reason = None\<rparr> (db0 PENDING, None))) = 200
   \<and> map h_action (db_caseHistory (snd (setStatus env0 root 10 \<lparr>b_status = ''RESOLVED'', b_reason = None\<rparr> (db0 PENDING, None))))
       = [''STATUS_UPDATED_BY_ADMIN'']
   \<and> ''ADMIN_OVERRIDE'' \<notin> set (map h_action (db_caseHistory (snd (setStatus env0 root 10 \<lparr>b_status = ''RESOLVED'', b_reason = None\<rparr> (db0 PENDING, None)))))"
  by (simp add: setStatus_def run_defs data_defs status_notifications_def)

subsection \<open>Responding to a case\<close>


lemma find_SomeD: "find P xs = Some x \<Longrightarrow> P x \<and> x \<in> set xs"
  by (auto simp: find_Some_iff)

lemma find_None_no_match: "(find P xs = None) = (\<not> list_ex P xs)"
  by (auto simp: find_None_iff list_ex_iff)

text \<open>The successful run of a response, table by table.\<close>

lemma respondToCase_run:
  assumes "rb_accepted body = JSBool a"
    and "optional_isLength 10 1000 (rb_response body)"
    and "find (\<lambda>c. c_id c = cid \<and> c_respondentId c = Some (u_id caller)
                   \<and> c_status c = AWAITING_RESPONSE) (db_cases d) = Some c"
  obtains c' h n d' where
    "respondToCase env caller cid body (d, None) = (Response 200 (PCase c'), d')"
    and "c_id c' = cid"
    and "c_status c' = (if a then ACCEPTED else UNRESOLVED)"
    and "find (\<lambda>x. c_id x = cid) (db_cases d') = Some c'"
    and "list_all (\<lambda>x. c_id x = cid \<longrightarrow> c_status x = (if a then ACCEPTED else UNRESOLVED))
           (db_cases d')"
    and "db_caseHistory d' = db_caseHistory d @ [h]"
    and "h_caseId h = cid"
    and "h_action h = (if a then ''CASE_ACCEPTED'' else ''CASE_REJECTED'')"
    and "h_performedById h = Some (u_id caller)"
    and "h_metadata h = None"
    and "db_notifications d' = db_notifications d @ [n]"
    and "n_userId n = c_complainantId c"
    and "db_witnesses d' = db_witnesses d"
    and "db_users d' = db_users d"
    and "db_mediationPanels d' = db_mediationPanels d"
proof -
  define f :: "case_row \<Rightarrow> case_row" where "f = (\<lambda>c. c\<lparr>c_respondentAccepted := Some a,
      c_respondentResponse := (case sanitize env (rb_response body) of
                                 None \<Rightarrow> c_respondentResponse c | Some r \<Rightarrow> Some r),
      c_respondentResponseAt := Some (db_clock d),
      c_status := (if js_truthy (JSBool a) then ACCEPTED else UNRESOLVED)\<rparr>)"
  have f: "\<And>x. c_id (f x) = c_id x" "\<And>x. c_status (f x) = (if a then ACCEPTED else UNRESOLVED)"
    by (simp_all add: f_def js_truthy_def)
  from assms(3) have c: "c \<in> set (db_cases d)" "c_id c = cid"
    by (auto dest: find_SomeD)
  then obtain c1 where c1: "find (\<lambda>x. c_id x = cid) (db_cases d) = Some c1"
    using find_Some_satisfying [of c "db_cases d" "\<lambda>x. c_id x = cid"] by blast
  obtain d1 where 1: "case_update cid f d = Some (f c1, d1)"
    and d1: "db_cases d1 = map (\<lambda>x. if c_id x = cid then f x else x) (db_cases d)"
      "db_caseHistory d1 = db_caseHistory d" "db_notifications d1 = db_notifications d"
      "db_witnesses d1 = db_witnesses d" "db_users d1 = db_users d"
      "db_mediationPanels d1 = db_mediationPanels d"
    by (rule case_update_effect [OF c1, of f])
  have 1: "case_update_response cid (JSBool a) (sanitize env (rb_response body)) d = Some (f c1, d1)"
    using 1 by (simp add: case_update_response_def f_def)
  obtain h d2 where 2: "caseHistory_create cid (if a then ''CASE_ACCEPTED'' else ''CASE_REJECTED'')
        (''Respondent '' @ (if a then ''accepted'' else ''rejected'') @ '' the case'')
        (Some (u_id caller)) None d1 = Some (h, d2)"
    and h: "h_caseId h = cid" "h_action h = (if a then ''CASE_ACCEPTED'' else ''CASE_REJECTED'')"
      "h_performedById h = Some (u_id caller)" "h_metadata h = None"
    and d2: "db_caseHistory d2 = db_caseHistory d1 @ [h]" "db_cases d2 = db_cases d1"
      "db_notifications d2 = db_notifications d1" "db_witnesses d2 = db_witnesses d1"
      "db_users d2 = db_users d1" "db_mediationPanels d2 = db_mediationPanels d1"
    by (rule caseHistory_create_effect)
  obtain n d3 where 3: "notification_create (c_complainantId c) cid ''CASE_STATUS_UPDATE''
        ''Case Response Received''
        (''The opposite party has '' @ (if a then ''accepted'' else ''rejected'')
           @ '' your case #'' @ c_caseNumber c @ ''.'') d2 = Some (n, d3)"
    and n: "n_userId n = c_complainantId c"
    and d3: "db_notifications d3 = db_notifications d2 @ [n]" "db_caseHistory d3 = db_caseHistory d2"
      "db_cases d3 = db_cases d2" "db_witnesses d3 = db_witnesses d2" "db_users d3 = db_users d2"
      "db_mediationPanels d3 = db_mediationPanels d2"
    by (rule notification_create_effect)
  have run: "respondToCase env caller cid body (d, None) = (Response 200 (PCase (f c1)), d3)"
    using assms 1 2 3
    by (simp add: respondToCase_def handle_def io_bind_def dbcall_no_fault io_return_def
        case_findFirst_def Let_def isBoolean_def js_truthy_def)
  from c1 have cid: "c_id c1 = cid" by (auto dest: find_SomeD)
  have found: "find (\<lambda>x. c_id x = cid) (db_cases d3) = Some (f c1)"
    unfolding d3 d2 d1 by (rule find_map_update_id [OF c1, of f]) (rule f)
  have all: "list_all (\<lambda>x. c_id x = cid \<longrightarrow> c_status x = (if a then ACCEPTED else UNRESOLVED))
           (db_cases d3)"
    unfolding d3 d2 d1 by (rule list_all_case_update [of f]) (rule f)+
  show ?thesis
  proof (rule that [where c' = "f c1" and h = h and n = n and d' = d3])
    show "respondToCase env caller cid body (d, None) = (Response 200 (PCase (f c1)), d3)"
      by (rule run)
    show "find (\<lambda>x. c_id x = cid) (db_cases d3) = Some (f c1)" by (rule found)
    show "list_all (\<lambda>x. c_id x = cid \<longrightarrow> c_status x = (if a then ACCEPTED else UNRESOLVED))
           (db_cases d3)" by (rule all)
    show "c_status (f c1) = (if a then ACCEPTED else UNRESOLVED)" by (rule f)
  qed (simp_all add: f cid d1 d2 d3 h n)
qed

text \<open>
  C4. For every case in status AWAITING_RESPONSE whose linked respondent is the caller, a
  response with \<open>accepted = true\<close> sets the status to ACCEPTED and one with
  \<open>accepted = false\<close> sets it to UNRESOLVED (for a body that passes validation, in a
  run where no database call fails): the handler answers 200 with the updated case, and
  every row of the case table with the id of the case has the new status.
\<close>

theorem respondToCase_transition:
  assumes "c \<in> set (db_cases d)" and "c_id c = cid"
    and "c_status c = AWAITING_RESPONSE"
    and "c_respondentId c = Some (u_id caller)"
    and "rb_accepted body = JSBool accepted"
    and "optional_isLength 10 1000 (rb_response body)"
  shows "\<exists>c' d'. respondToCase env caller cid body (d, None) = (Response 200 (PCase c'), d')
      \<and> c_id c' = cid
      \<and> c_status c' = (if accepted then ACCEPTED else UNRESOLVED)
      \<and> find (\<lambda>x. c_id x = cid) (db_cases d') = Some c'
      \<and> list_all (\<lambda>x. c_id x = cid \<longrightarrow> c_status x = (if accepted then ACCEPTED else UNRESOLVED))
            (db_cases d')"
proof -
  let ?P = "\<lambda>c. c_id c = cid \<and> c_respondentId c = Some (u_id caller) \<and> c_status c = AWAITING_RESPONSE"
  from assms(1-4) obtain c0 where c0: "find ?P (db_cases d) = Some c0"
    using find_Some_satisfying [of c "db_cases d" ?P] by blast
  obtain c' d' where "respondToCase env caller cid body (d, None) = (Response 200 (PCase c'), d')"
    and "c_id c' = cid"
    and "c_status c' = (if accepted then ACCEPTED else UNRESOLVED)"
    and "find (\<lambda>x. c_id x = cid) (db_cases d') = Some c'"
    and "list_all (\<lambda>x. c_id x = cid \<longrightarrow> c_status x = (if accepted then ACCEPTED else UNRESOLVED))
           (db_cases d')"
    by (rule respondToCase_run [OF assms(5,6) c0, of env])
  then show ?thesis by blast
qed

theorem respondToCase_transition_witness:
  "(\<exists>c' d'. respondToCase env0 bob 10 \<lparr>rb_accepted = JSBool True, rb_response = None\<rparr>
               (db0 AWAITING_RESPONSE, None) = (Response 200 (PCase c'), d')
      \<and> c_id c' = 10 \<and> c_status c' = ACCEPTED
      \<and> find (\<lambda>x. c_id x = 10) (db_cases d') = Some c'
      \<and> list_all (\<lambda>x. c_id x = 10 \<longrightarrow> c_status x = ACCEPTED) (db_cases d'))
   \<and> (\<exists>c' d'. respondToCase env0 bob 10 \<lparr>rb_accepted = JSBool False, rb_response = None\<rparr>
               (db0 AWAITING_RESPONSE, None) = (Response 200 (PCase c'), d')
      \<and> c_id c' = 10 \<and> c_status c' = UNRESOLVED
      \<and> find (\<lambda>x. c_id x = 10) (db_cases d') = Some c'
      \<and> list_all (\<lambda>x. c_id x = 10 \<longrightarrow> c_status x = UNRESOLVED) (db_cases d'))"
  using respondToCase_transition [of "case10 AWAITING_RESPONSE" "db0 AWAITING_RESPONSE" 10 bob
      "\<lparr>rb_accepted = JSBool True, rb_response = None\<rparr>" True env0]
    respondToCase_transition [of "case10 AWAITING_RESPONSE" "db0 AWAITING_RESPONSE" 10 bob
      "\<lparr>rb_accepted = JSBool False, rb_response = None\<rparr>" False env0]
  by (simp add: db0_def case10_def bob_def optional_isLength_def)

text \<open>
  C5 (as amended). One query looks for a case with the given id, the caller as linked
  respondent and status AWAITING_RESPONSE. When no case matches, because the caller is
  not the linked respondent or because the status is another one, a valid request is
  answered 404 with the message below, which names no status; whatever database call
  fails, the database is left as it was.
\<close>

theorem respondToCase_rejected_not_found:
  assumes "isBoolean (rb_accepted body)" and "optional_isLength 10 1000 (rb_response body)"
    and "\<not> list_ex (\<lambda>c. c_id c = cid \<and> c_respondentId c = Some (u_id caller)
                       \<and> c_status c = AWAITING_RESPONSE) (db_cases d)"
  shows "respondToCase env caller cid body (d, None)
           = (Response 404 (PError ''Case not found or you cannot respond to this case''), d)
       \<and> snd (respondToCase env caller cid body (d, fault)) = d"
proof -
  have none: "find (\<lambda>c. c_id c = cid \<and> c_respondentId c = Some (u_id caller)
                   \<and> c_status c = AWAITING_RESPONSE) (db_cases d) = None"
    using assms(3) by (simp add: find_None_no_match)
  have "respondToCase env caller cid body (d, None)
           = (Response 404 (PError ''Case not found or you cannot respond to this case''), d)"
    using assms(1,2) none
    by (simp add: respondToCase_def handle_def io_bind_def dbcall_no_fault reply_def
        case_findFirst_def Let_def)
  moreover have "snd (respondToCase env caller cid body (d, fault)) = d"
    using assms(1,2) none
    by (cases fault)
       (simp_all add: respondToCase_def handle_def io_bind_def dbcall_def reply_def
        case_findFirst_def Let_def split: nat.splits)
  ultimately show ?thesis by simp
qed

theorem respondToCase_rejected_not_found_witness:
  "respondToCase env0 alice 10 \<lparr>rb_accepted = JSBool True, rb_response = None\<rparr>
        (db0 AWAITING_RESPONSE, None)
     = (Response 404 (PError ''Case not found or you cannot respond to this case''),
        db0 AWAITING_RESPONSE)
   \<and> snd (respondToCase env0 alice 10 \<lparr>rb_accepted = JSBool True, rb_response = None\<rparr>
        (db0 AWAITING_RESPONSE, Some 0)) = db0 AWAITING_RESPONSE"
  using respondToCase_rejected_not_found [of "\<lparr>rb_accepted = JSBool True, rb_response = None\<rparr>"
      10 alice "db0 AWAITING_RESPONSE" env0 "Some 0"]
  by (simp add: db0_def case10_def alice_def optional_isLength_def isBoolean_def)

text \<open>
  C5 as stated fails: Bob is the linked respondent of case 10, whose status is ACCEPTED;
  his response is answered 404 (not found), not with a conflict, and the message names
  neither the current nor the attempted status.
\<close>

theorem respondToCase_wrong_status_counterexample:
  "c_respondentId (case10 ACCEPTED) = Some (u_id bob)
   \<and> c_status (case10 ACCEPTED) \<noteq> AWAITING_RESPONSE
   \<and> respondToCase env0 bob 10 \<lparr>rb_accepted = JSBool True, rb_response = None\<rparr> (db0 ACCEPTED, None)
       = (Response 404 (PError ''Case not found or you cannot respond to this case''), db0 ACCEPTED)
   \<and> class_of (fst (respondToCase env0 bob 10 \<lparr>rb_accepted = JSBool True, rb_response = None\<rparr>
         (db0 ACCEPTED, None))) \<noteq> Some CONFLICT"
  by (simp add: respondToCase_def run_defs data_defs isBoolean_def class_of_def)

subsection \<open>Registration and the admin gate\<close>

lemma register_run:
  assumes "valid_register env body"
    and "find (\<lambda>u. u_email u = normalizeEmail env (rg_email body)
                  \<or> (truthy (rg_phone body) \<and> u_phone u = rg_phone body)) (db_users d) = None"
  shows "register env body (d, None) =
     (Response 201 (PUser \<lparr>u_id = db_next_id d, u_email = normalizeEmail env (rg_email body),
          u_name = escape env (trim env (rg_name body)), u_phone = rg_phone body,
          u_role = (if normalizeEmail env (rg_email body) = ''admin@resolveit.com''
                    then ''ADMIN'' else ''USER'')\<rparr>),
      d\<lparr>db_users := db_users d @ [\<lparr>u_id = db_next_id d, u_email = normalizeEmail env (rg_email body),
          u_name = escape env (trim env (rg_name body)), u_phone = rg_phone body,
          u_role = (if normalizeEmail env (rg_email body) = ''admin@resolveit.com''
                    then ''ADMIN'' else ''USER'')\<rparr>],
        db_next_id := db_next_id d + 1, db_clock := db_clock d + 1\<rparr>)"
  using assms
  by (simp add: register_def handle_def io_bind_def dbcall_no_fault io_return_def
      user_findFirst_email_or_phone_def user_create_def Let_def)

lemma register_created:
  assumes "register env body (d, None) = (Response 201 (PUser u), d')"
  shows "u_role u = (if normalizeEmail env (rg_email body) = ''admin@resolveit.com''
                     then ''ADMIN'' else ''USER'')"
    and "db_users d' = db_users d @ [u]"
  using assms
  by (auto simp: register_def handle_def io_bind_def dbcall_no_fault io_return_def reply_def
      user_findFirst_email_or_phone_def user_create_def Let_def validation_failed_def
      split: if_splits option.splits)

lemma admin_route_gate:
  assumes "find (\<lambda>x. u_id x = uid) (db_users d) = Some v"
  shows "admin_route h (Token uid) (d, None) =
     (if u_role v = ''ADMIN'' then h v (d, None)
      else (Response 403 (PError ''Admin access required''), d))"
  using assms
  by (simp add: admin_route_def authenticate_def dbcall_no_fault user_findUnique_id_def
      requireAdmin_def)

text \<open>
  C10 (as amended). A registration that passes field validation and meets no existing
  user with the email or phone creates a user; the created user has role ADMIN if and
  only if the email after the \<open>normalizeEmail\<close> sanitizer of the route is
  \<open>admin@resolveit.com\<close>, and role USER otherwise. \<open>requireAdmin\<close> lets a request
  through exactly when the role of the authenticated user is ADMIN, and every route of
  the admin router answers 403 to any other user without touching the database.
\<close>

theorem register_role_and_admin_gate:
  "(valid_register env body
      \<and> find (\<lambda>u. u_email u = normalizeEmail env (rg_email body)
                  \<or> (truthy (rg_phone body) \<and> u_phone u = rg_phone body)) (db_users d) = None
      \<longrightarrow> (\<exists>u d'. register env body (d, None) = (Response 201 (PUser u), d')))
   \<and> (register env body (d, None) = (Response 201 (PUser u), d')
      \<longrightarrow> db_users d' = db_users d @ [u]
        \<and> (u_role u = ''ADMIN'') = (normalizeEmail env (rg_email body) = ''admin@resolveit.com'')
        \<and> (u_role u = ''USER'') = (normalizeEmail env (rg_email body) \<noteq> ''admin@resolveit.com''))
   \<and> (requireAdmin (Some v) = None) = (u_role v = ''ADMIN'')
   \<and> (find (\<lambda>x. u_id x = uid) (db_users d) = Some v
      \<longrightarrow> admin_route h (Token uid) (d, None) =
            (if u_role v = ''ADMIN'' then h v (d, None)
             else (Response 403 (PError ''Admin access required''), d)))"
proof (intro conjI impI)
  assume "valid_register env body
      \<and> find (\<lambda>u. u_email u = normalizeEmail env (rg_email body)
                  \<or> (truthy (rg_phone body) \<and> u_phone u = rg_phone body)) (db_users d) = None"
  then show "\<exists>u d'. register env body (d, None) = (Response 201 (PUser u), d')"
    using register_run [of env body d] by blast
next
  assume r: "register env body (d, None) = (Response 201 (PUser u), d')"
  show "db_users d' = db_users d @ [u]" by (rule register_created [OF r])
  show "(u_role u = ''ADMIN'') = (normalizeEmail env (rg_email body) = ''admin@resolveit.com'')"
    using register_created(1) [OF r] by simp
  show "(u_role u = ''USER'') = (normalizeEmail env (rg_email body) \<noteq> ''admin@resolveit.com'')"
    using register_created(1) [OF r] by simp
next
  show "(requireAdmin (Some v) = None) = (u_role v = ''ADMIN'')"
    by (simp add: requireAdmin_def)
next
  assume "find (\<lambda>x. u_id x = uid) (db_users d) = Some v"
  then show "admin_route h (Token uid) (d, None) =
            (if u_role v = ''ADMIN'' then h v (d, None)
             else (Response 403 (PError ''Admin access required''), d))"
    by (rule admin_route_gate)
qed

lemma lower_admin: "map lower_char ''Admin@ResolveIt.com'' = ''admin@resolveit.com''"
  by (simp add: lower_char_def)

theorem register_role_and_admin_gate_witness:
  "(\<exists>u d'. register env0 (register_body0 ''carol@example.com'') (db_alice_bob, None)
             = (Response 201 (PUser u), d')
         \<and> db_users d' = db_users db_alice_bob @ [u] \<and> u_role u = ''USER'')
   \<and> requireAdmin (Some alice) \<noteq> None
   \<and> admin_route (\<lambda>u. setStatus env0 u 10 \<lparr>b_status = ''CANCELLED'', b_reason = None\<rparr>)
        (Token 1) (db_alice_bob, None)
       = (Response 403 (PError ''Admin access required''), db_alice_bob)"
proof -
  let ?body = "register_body0 ''carol@example.com''"
  let ?h = "\<lambda>u. setStatus env0 u 10 \<lparr>b_status = ''CANCELLED'', b_reason = None\<rparr>"
  have valid: "valid_register env0 ?body
      \<and> find (\<lambda>u. u_email u = normalizeEmail env0 (rg_email ?body)
                  \<or> (truthy (rg_phone ?body) \<and> u_phone u = rg_phone ?body)) (db_users db_alice_bob) = None"
    by (simp add: valid_register_def register_body0_def env0_def isLength_def db_alice_bob_def
        db0_def alice_def bob_def lower_char_def truthy_def)
  have norm: "normalizeEmail env0 (rg_email ?body) \<noteq> ''admin@resolveit.com''"
    by (simp add: register_body0_def env0_def lower_char_def)
  have alice: "find (\<lambda>x. u_id x = 1) (db_users db_alice_bob) = Some alice"
    by (simp add: db_alice_bob_def alice_def)
  have role: "u_role alice \<noteq> ''ADMIN''"
    by (simp add: alice_def)
  from register_role_and_admin_gate [of env0 ?body db_alice_bob] valid
  obtain u d' where r: "register env0 ?body (db_alice_bob, None) = (Response 201 (PUser u), d')"
    by blast
  from register_role_and_admin_gate [of env0 ?body db_alice_bob u d' alice 1 ?h] r norm alice role
  have "db_users d' = db_users db_alice_bob @ [u]" and "u_role u = ''USER''"
    and "requireAdmin (Some alice) \<noteq> None"
    and "admin_route ?h (Token 1) (db_alice_bob, None)
       = (Response 403 (PError ''Admin access required''), db_alice_bob)"
    by simp_all
  with r show ?thesis by blast
qed

text \<open>
  C10 as stated fails: the submitted email \<open>Admin@ResolveIt.com\<close> is not exactly
  \<open>admin@resolveit.com\<close>, yet the user it registers has role ADMIN, because the
  comparison is made after the address has been normalised to lower case.
\<close>

theorem register_submitted_email_counterexample:
  "rg_email (register_body0 ''Admin@ResolveIt.com'') \<noteq> ''admin@resolveit.com''
   \<and> valid_register env0 (register_body0 ''Admin@ResolveIt.com'')
   \<and> status_code (fst (register env0 (register_body0 ''Admin@ResolveIt.com'') (db_alice_bob, None))) = 201
   \<and> map_option u_role (created_user (fst (register env0 (register_body0 ''Admin@ResolveIt.com'')
        (db_alice_bob, None)))) = Some ''ADMIN''"
  by (simp add: register_def run_defs data_defs db_alice_bob_def register_body0_def created_user_def
      valid_register_def user_findFirst_email_or_phone_def user_create_def lower_char_def truthy_def)

subsection \<open>Registering a case\<close>


lemma resolve_respondent_run:
  "resolve_respondent e (d, None) = (Done (lookup_respondent e d), (d, None))"
  by (simp add: resolve_respondent_def lookup_respondent_def io_bind_def dbcall_no_fault
      user_findUnique_email_def io_return_def)

lemma case_create_effect:
  obtains row d' where "case_create env complainant rid b d = Some (row, d')"
    and "c_id row = db_next_id d" and "c_status row = PENDING"
    and "c_complainantId row = complainant" and "c_respondentId row = rid"
    and "db_cases d' = db_cases d @ [row]"
    and "db_caseHistory d' = db_caseHistory d"
    and "db_notifications d' = db_notifications d"
    and "db_witnesses d' = db_witnesses d"
    and "db_users d' = db_users d"
    and "db_mediationPanels d' = db_mediationPanels d"
  by (simp add: case_create_def Let_def)

lemma evidence_step:
  obtains d' where
    "(if files \<noteq> [] then dbcall (evidence_createMany cid files) else io_return ()) (d, None)
       = (Done (), (d', None))"
    and "db_cases d' = db_cases d"
    and "db_caseHistory d' = db_caseHistory d"
    and "db_notifications d' = db_notifications d"
    and "db_witnesses d' = db_witnesses d"
    and "db_users d' = db_users d"
    and "db_mediationPanels d' = db_mediationPanels d"
  by (cases "files = []") (simp_all add: io_return_def dbcall_no_fault evidence_createMany_def)

lemma find_append_fresh:
  assumes "list_all (\<lambda>c. \<not> P c) cs" and "P row"
  shows "find P (cs @ [row]) = Some row"
  using assms by (induction cs) simp_all

lemma map_update_append_fresh:
  assumes "list_all (\<lambda>c. c_id c \<noteq> cid) cs" and "c_id row = cid"
  shows "map (\<lambda>x. if c_id x = cid then f x else x) (cs @ [row]) = cs @ [f row]"
  using assms by (induction cs) simp_all

text \<open>The notification of a linked respondent and the move to AWAITING_RESPONSE.\<close>

lemma link_step:
  assumes "db_cases d = cs @ [row]" and "list_all (\<lambda>c. c_id c \<noteq> c_id row) cs"
  obtains ns d' where
    "(case rid of
        None \<Rightarrow> io_return ()
      | Some r \<Rightarrow>
          io_bind (dbcall (notification_create r (c_id row) type title message)) (\<lambda>sent2.
          io_bind (dbcall (case_update (c_id row) (\<lambda>c. c\<lparr>c_status := AWAITING_RESPONSE\<rparr>))) (\<lambda>upd.
          io_return ()))) (d, None) = (Done (), (d', None))"
    and "db_cases d' = cs @ [if rid = None then row else row\<lparr>c_status := AWAITING_RESPONSE\<rparr>]"
    and "db_caseHistory d' = db_caseHistory d"
    and "db_notifications d' = db_notifications d @ ns"
    and "map n_userId ns = (case rid of None \<Rightarrow> [] | Some r \<Rightarrow> [r])"
    and "list_all (\<lambda>n. n_caseId n = Some (c_id row)) ns"
    and "db_witnesses d' = db_witnesses d"
    and "db_users d' = db_users d"
    and "db_mediationPanels d' = db_mediationPanels d"
proof (cases rid)
  case None
  show ?thesis
    by (rule that [where ns = "[]" and d' = d]) (simp_all add: None io_return_def assms)
next
  case (Some r)
  obtain n d1 where 1: "notification_create r (c_id row) type title message d = Some (n, d1)"
    and n: "n_userId n = r" "n_caseId n = Some (c_id row)"
    and d1: "db_notifications d1 = db_notifications d @ [n]" "db_caseHistory d1 = db_caseHistory d"
      "db_cases d1 = db_cases d" "db_witnesses d1 = db_witnesses d" "db_users d1 = db_users d"
      "db_mediationPanels d1 = db_mediationPanels d"
    by (rule notification_create_effect)
  have found: "find (\<lambda>c. c_id c = c_id row) (db_cases d1) = Some row"
    unfolding d1 assms(1) by (rule find_append_fresh) (simp_all add: assms(2))
  obtain d2 where 2: "case_update (c_id row) (\<lambda>c. c\<lparr>c_status := AWAITING_RESPONSE\<rparr>) d1
        = Some (row\<lparr>c_status := AWAITING_RESPONSE\<rparr>, d2)"
    and d2: "db_cases d2 = map (\<lambda>x. if c_id x = c_id row then x\<lparr>c_status := AWAITING_RESPONSE\<rparr> else x)
                (db_cases d1)"
      "db_caseHistory d2 = db_caseHistory d1" "db_notifications d2 = db_notifications d1"
      "db_witnesses d2 = db_witnesses d1" "db_users d2 = db_users d1"
      "db_mediationPanels d2 = db_mediationPanels d1"
    by (rule case_update_effect [OF found, of "\<lambda>c. c\<lparr>c_status := AWAITING_RESPONSE\<rparr>"])
  have cases: "db_cases d2 = cs @ [row\<lparr>c_status := AWAITING_RESPONSE\<rparr>]"
    unfolding d2 d1 assms(1)
    by (rule map_update_append_fresh [OF assms(2), of row "\<lambda>x. x\<lparr>c_status := AWAITING_RESPONSE\<rparr>"]) simp
  show ?thesis
  proof (rule that [where ns = "[n]" and d' = d2])
    show "(case rid of
        None \<Rightarrow> io_return ()
      | Some r \<Rightarrow>
          io_bind (dbcall (notification_create r (c_id row) type title message)) (\<lambda>sent2.
          io_bind (dbcall (case_update (c_id row) (\<lambda>c. c\<lparr>c_status := AWAITING_RESPONSE\<rparr>))) (\<lambda>upd.
          io_return ()))) (d, None) = (Done (), (d2, None))"
      by (simp add: Some io_bind_def dbcall_no_fault 1 2 io_return_def)
    show "db_cases d2 = cs @ [if rid = None then row else row\<lparr>c_status := AWAITING_RESPONSE\<rparr>]"
      by (simp add: cases Some)
  qed (simp_all add: Some n d1 d2)
qed



lemma createCase_run:
  assumes "valid_createCase env raw"
    and "\<not> court_details_missing (sanitized_createCase env raw)"
    and "\<not> police_details_missing (sanitized_createCase env raw)"
    and "list_all (\<lambda>c. c_id c \<noteq> db_next_id d) (db_cases d)"
  obtains c h ns d' where
    "createCase env caller raw files (d, None) = (Response 201 (PCaseOpt (Some c)), d')"
    and "c_id c = db_next_id d"
    and "c_complainantId c = u_id caller"
    and "c_respondentId c = lookup_respondent (cb_oppositePartyEmail (sanitized_createCase env raw)) d"
    and "c_status c = (if lookup_respondent (cb_oppositePartyEmail (sanitized_createCase env raw)) d = None
                       then PENDING else AWAITING_RESPONSE)"
    and "db_cases d' = db_cases d @ [c]"
    and "db_caseHistory d' = db_caseHistory d @ [h]"
    and "h_caseId h = db_next_id d" and "h_action h = ''CASE_CREATED''"
    and "h_performedById h = Some (u_id caller)" and "h_metadata h = None"
    and "db_notifications d' = db_notifications d @ ns"
    and "map n_userId ns = u_id caller
           # (case lookup_respondent (cb_oppositePartyEmail (sanitized_createCase env raw)) d of
                None \<Rightarrow> [] | Some r \<Rightarrow> [r])"
    and "list_all (\<lambda>n. n_caseId n = Some (db_next_id d)) ns"
    and "db_witnesses d' = db_witnesses d"
    and "db_users d' = db_users d"
    and "db_mediationPanels d' = db_mediationPanels d"
proof -
  define b where "b = sanitized_createCase env raw"
  define rid where "rid = lookup_respondent (cb_oppositePartyEmail b) d"
  have 0: "resolve_respondent (cb_oppositePartyEmail b) (d, None) = (Done rid, (d, None))"
    unfolding rid_def by (rule resolve_respondent_run)
  obtain row d1 where 1: "case_create env (u_id caller) rid b d = Some (row, d1)"
    and row: "c_id row = db_next_id d" "c_status row = PENDING"
      "c_complainantId row = u_id caller" "c_respondentId row = rid"
    and d1: "db_cases d1 = db_cases d @ [row]" "db_caseHistory d1 = db_caseHistory d"
      "db_notifications d1 = db_notifications d" "db_witnesses d1 = db_witnesses d"
      "db_users d1 = db_users d" "db_mediationPanels d1 = db_mediationPanels d"
    by (rule case_create_effect)
  obtain d1' where ev: "(if files \<noteq> [] then dbcall (evidence_createMany (c_id row) files)
        else io_return ()) (d1, None) = (Done (), (d1', None))"
    and d1': "db_cases d1' = db_cases d1" "db_caseHistory d1' = db_caseHistory d1"
      "db_notifications d1' = db_notifications d1" "db_witnesses d1' = db_witnesses d1"
      "db_users d1' = db_users d1" "db_mediationPanels d1' = db_mediationPanels d1"
    by (rule evidence_step)
  obtain h d2 where 2: "caseHistory_create (c_id row) ''CASE_CREATED''
        ''Case registered successfully'' (Some (u_id caller)) None d1' = Some (h, d2)"
    and h: "h_caseId h = c_id row" "h_action h = ''CASE_CREATED''"
      "h_performedById h = Some (u_id caller)" "h_metadata h = None"
    and d2: "db_caseHistory d2 = db_caseHistory d1' @ [h]" "db_cases d2 = db_cases d1'"
      "db_notifications d2 = db_notifications d1'" "db_witnesses d2 = db_witnesses d1'"
      "db_users d2 = db_users d1'" "db_mediationPanels d2 = db_mediationPanels d1'"
    by (rule caseHistory_create_effect)
  obtain n d3 where 3: "notification_create (u_id caller) (c_id row) ''CASE_STATUS_UPDATE''
        ''Case Registered Successfully''
        (''Your case #'' @ c_caseNumber row @ '' has been registered and is pending review.'') d2
        = Some (n, d3)"
    and n: "n_userId n = u_id caller" "n_caseId n = Some (c_id row)"
    and d3: "db_notifications d3 = db_notifications d2 @ [n]" "db_caseHistory d3 = db_caseHistory d2"
      "db_cases d3 = db_cases d2" "db_witnesses d3 = db_witnesses d2" "db_users d3 = db_users d2"
      "db_mediationPanels d3 = db_mediationPanels d2"
    by (rule notification_create_effect)
  have cases3: "db_cases d3 = db_cases d @ [row]"
    by (simp add: d3 d2 d1' d1)
  have fresh: "list_all (\<lambda>c. c_id c \<noteq> c_id row) (db_cases d)"
    using assms(4) by (simp add: row)
  define c where "c = (if rid = None then row else row\<lparr>c_status := AWAITING_RESPONSE\<rparr>)"
  obtain ns d4 where 4: "(case rid of
        None \<Rightarrow> io_return ()
      | Some r \<Rightarrow>
          io_bind (dbcall (notification_create r (c_id row) ''CASE_STATUS_UPDATE''
                     ''New Case Filed Against You''
                     (''A new case #'' @ c_caseNumber row
                        @ '' has been filed against you. Please review and respond.''))) (\<lambda>sent2.
          io_bind (dbcall (case_update (c_id row) (\<lambda>c. c\<lparr>c_status := AWAITING_RESPONSE\<rparr>))) (\<lambda>upd.
          io_return ()))) (d3, None) = (Done (), (d4, None))"
    and d4: "db_cases d4 = db_cases d @ [c]"
      "db_caseHistory d4 = db_caseHistory d3" "db_notifications d4 = db_notifications d3 @ ns"
      "db_witnesses d4 = db_witnesses d3" "db_users d4 = db_users d3"
      "db_mediationPanels d4 = db_mediationPanels d3"
    and ns: "map n_userId ns = (case rid of None \<Rightarrow> [] | Some r \<Rightarrow> [r])"
      "list_all (\<lambda>n. n_caseId n = Some (c_id row)) ns"
    unfolding c_def by (rule link_step [OF cases3 fresh])
  have c: "c_id c = db_next_id d" "c_complainantId c = u_id caller" "c_respondentId c = rid"
    "c_status c = (if rid = None then PENDING else AWAITING_RESPONSE)"
    by (simp_all add: c_def row)
  have 5: "find (\<lambda>x. c_id x = c_id row) (db_cases d4) = Some c"
    unfolding d4 by (rule find_append_fresh) (simp_all add: assms(4) c row)
  have run: "createCase env caller raw files (d, None) = (Response 201 (PCaseOpt (Some c)), d4)"
    using assms(1-3) 0 1 ev 2 3 4 5
    by (simp add: createCase_def handle_def io_bind_def dbcall_no_fault io_return_def Let_def
        case_findUnique_def flip: b_def)
  show ?thesis
  proof (rule that [where c = c and h = h and ns = "n # ns" and d' = d4])
    show "createCase env caller raw files (d, None) = (Response 201 (PCaseOpt (Some c)), d4)"
      by (rule run)
    show "db_cases d4 = db_cases d @ [c]" by (rule d4)
    show "list_all (\<lambda>n. n_caseId n = Some (db_next_id d)) (n # ns)"
      using ns(2) n(2) by (simp add: row)
  qed (simp_all add: c d4 d3 d2 d1' d1 h n ns row flip: rid_def b_def)
qed

text \<open>
  The registration when the handler's court and police checks pass, as they do for
  JSON booleans: when the opposite-party email resolves to a registered user, the case
  is created with that user as respondent, ends in AWAITING_RESPONSE, and exactly two
  notifications are created, for the complainant and for the respondent; otherwise the
  case ends in PENDING with exactly one notification, for the complainant (run without a
  failing database call, the generated id being fresh). The checks test the raw flag for
  truthiness, so they do not pass for every valid payload; see the theorem after the
  example.
\<close>

theorem createCase_status_and_notifications:
  assumes "valid_createCase env raw"
    and "\<not> court_details_missing (sanitized_createCase env raw)"
    and "\<not> police_details_missing (sanitized_createCase env raw)"
    and "list_all (\<lambda>c. c_id c \<noteq> db_next_id d) (db_cases d)"
  shows "\<exists>c ns d'. createCase env caller raw files (d, None) = (Response 201 (PCaseOpt (Some c)), d')
     \<and> db_cases d' = db_cases d @ [c]
     \<and> c_complainantId c = u_id caller
     \<and> db_notifications d' = db_notifications d @ ns
     \<and> list_all (\<lambda>n. n_caseId n = Some (c_id c)) ns
     \<and> (case lookup_respondent (cb_oppositePartyEmail (sanitized_createCase env raw)) d of
          Some rid \<Rightarrow> c_status c = AWAITING_RESPONSE \<and> c_respondentId c = Some rid
                      \<and> map n_userId ns = [u_id caller, rid]
        | None \<Rightarrow> c_status c = PENDING \<and> c_respondentId c = None
                      \<and> map n_userId ns = [u_id caller])"
proof -
  let ?rid = "lookup_respondent (cb_oppositePartyEmail (sanitized_createCase env raw)) d"
  obtain c ns d' where run: "createCase env caller raw files (d, None) = (Response 201 (PCaseOpt (Some c)), d')"
    and c: "c_id c = db_next_id d" "c_complainantId c = u_id caller" "c_respondentId c = ?rid"
      "c_status c = (if ?rid = None then PENDING else AWAITING_RESPONSE)"
    and d': "db_cases d' = db_cases d @ [c]" "db_notifications d' = db_notifications d @ ns"
    and ns: "map n_userId ns = u_id caller # (case ?rid of None \<Rightarrow> [] | Some r \<Rightarrow> [r])"
      "list_all (\<lambda>n. n_caseId n = Some (db_next_id d)) ns"
    by (rule createCase_run [OF assms, of caller files])
  show ?thesis
  proof (intro exI conjI)
    show "createCase env caller raw files (d, None) = (Response 201 (PCaseOpt (Some c)), d')"
      by (rule run)
    show "db_cases d' = db_cases d @ [c]" by (rule d')
    show "c_complainantId c = u_id caller" by (rule c)
    show "db_notifications d' = db_notifications d @ ns" by (rule d')
    show "list_all (\<lambda>n. n_caseId n = Some (c_id c)) ns" using ns(2) by (simp add: c)
    show "case ?rid of
          Some rid \<Rightarrow> c_status c = AWAITING_RESPONSE \<and> c_respondentId c = Some rid
                      \<and> map n_userId ns = [u_id caller, rid]
        | None \<Rightarrow> c_status c = PENDING \<and> c_respondentId c = None
                      \<and> map n_userId ns = [u_id caller]"
      using c ns(1) by (cases ?rid) simp_all
  qed
qed


theorem createCase_status_and_notifications_witness:
  "(\<exists>c ns d'. createCase env0 alice (case_body0 (Some ''Bob@Example.com'')) [] (db0 PENDING, None)
         = (Response 201 (PCaseOpt (Some c)), d')
      \<and> db_cases d' = db_cases (db0 PENDING) @ [c]
      \<and> c_complainantId c = 1
      \<and> db_notifications d' = db_notifications (db0 PENDING) @ ns
      \<and> list_all (\<lambda>n. n_caseId n = Some (c_id c)) ns
      \<and> c_status c = AWAITING_RESPONSE \<and> c_respondentId c = Some 2
      \<and> map n_userId ns = [1, 2])
   \<and> (\<exists>c ns d'. createCase env0 alice (case_body0 (Some ''nobody@example.com'')) [] (db0 PENDING, None)
         = (Response 201 (PCaseOpt (Some c)), d')
      \<and> db_cases d' = db_cases (db0 PENDING) @ [c]
      \<and> c_complainantId c = 1
      \<and> db_notifications d' = db_notifications (db0 PENDING) @ ns
      \<and> list_all (\<lambda>n. n_caseId n = Some (c_id c)) ns
      \<and> c_status c = PENDING \<and> c_respondentId c = None
      \<and> map n_userId ns = [1])"
proof -
  have valid: "valid_createCase env0 (case_body0 e) = (case e of None \<Rightarrow> True | Some a \<Rightarrow> CHR ''@'' \<in> set a)"
    "\<not> court_details_missing (sanitized_createCase env0 (case_body0 e))"
    "\<not> police_details_missing (sanitized_createCase env0 (case_body0 e))" for e
    by (simp_all add: valid_createCase_def case_body0_def env0_def isLength_def
        optional_isLength_def optional_check_def isBoolean_def court_details_missing_def
        police_details_missing_def sanitized_createCase_def js_truthy_def)
  have fresh: "list_all (\<lambda>c. c_id c \<noteq> db_next_id (db0 PENDING)) (db_cases (db0 PENDING))"
    by (simp add: db0_def case10_def)
  have bob: "lookup_respondent (cb_oppositePartyEmail
        (sanitized_createCase env0 (case_body0 (Some ''Bob@Example.com'')))) (db0 PENDING) = Some 2"
    by (simp add: lookup_respondent_def sanitized_createCase_def case_body0_def env0_def
        lower_char_def truthy_def data_defs)
  have nobody: "lookup_respondent (cb_oppositePartyEmail
        (sanitized_createCase env0 (case_body0 (Some ''nobody@example.com'')))) (db0 PENDING) = None"
    by (simp add: lookup_respondent_def sanitized_createCase_def case_body0_def env0_def
        lower_char_def truthy_def data_defs)
  have alice: "u_id alice = 1" by (simp add: alice_def)
  from createCase_status_and_notifications [OF _ valid(2) valid(3) fresh,
      of "Some ''Bob@Example.com''" alice "[]"]
  have a: "\<exists>c ns d'. createCase env0 alice (case_body0 (Some ''Bob@Example.com'')) [] (db0 PENDING, None)
         = (Response 201 (PCaseOpt (Some c)), d')
      \<and> db_cases d' = db_cases (db0 PENDING) @ [c]
      \<and> c_complainantId c = 1
      \<and> db_notifications d' = db_notifications (db0 PENDING) @ ns
      \<and> list_all (\<lambda>n. n_caseId n = Some (c_id c)) ns
      \<and> c_status c = AWAITING_RESPONSE \<and> c_respondentId c = Some 2
      \<and> map n_userId ns = [1, 2]"
    unfolding bob alice by (simp add: valid(1))
  from createCase_status_and_notifications [OF _ valid(2) valid(3) fresh,
      of "Some ''nobody@example.com''" alice "[]"]
  have b: "\<exists>c ns d'. createCase env0 alice (case_body0 (Some ''nobody@example.com'')) [] (db0 PENDING, None)
         = (Response 201 (PCaseOpt (Some c)), d')
      \<and> db_cases d' = db_cases (db0 PENDING) @ [c]
      \<and> c_complainantId c = 1
      \<and> db_notifications d' = db_notifications (db0 PENDING) @ ns
      \<and> list_all (\<lambda>n. n_caseId n = Some (c_id c)) ns
      \<and> c_status c = PENDING \<and> c_respondentId c = None
      \<and> map n_userId ns = [1]"
    unfolding nobody alice by (simp add: valid(1))
  from a b show ?thesis by (rule conjI)
qed

text \<open>
  C3 (the code departs from the claim). A registration sent as a multipart form carries
  its flags as strings. With both flags \<open>"false"\<close> and no court or police details the
  payload passes the whole validation chain, and no flag is set; yet the handler tests
  the raw string, which is truthy, answers 400 "Court case number and court name are
  required when case is in court" and creates no case and no notification. The same
  registration with the JSON boolean \<open>false\<close> is answered 201.
\<close>

theorem createCase_multipart_false_flag_rejected:
  "valid_createCase env0 multipart_body0
   \<and> cb_isInCourt multipart_body0 = JSString ''false''
   \<and> cb_isInPoliceStation multipart_body0 = JSString ''false''
   \<and> createCase env0 alice multipart_body0 [photo] (db0 PENDING, None)
       = (Response 400 (PError
            ''Court case number and court name are required when case is in court''),
          db0 PENDING)
   \<and> status_code (fst (createCase env0 alice (case_body0 None) [photo] (db0 PENDING, None))) = 201"
  by (simp add: multipart_body0_def photo_def createCase_defs run_defs data_defs)

subsection \<open>Nominating witnesses\<close>


lemma witness_insert_all_other_tables:
  "db_cases (witness_insert_all conflict rows d) = db_cases d
   \<and> db_caseHistory (witness_insert_all conflict rows d) = db_caseHistory d
   \<and> db_notifications (witness_insert_all conflict rows d) = db_notifications d
   \<and> db_users (witness_insert_all conflict rows d) = db_users d
   \<and> db_mediationPanels (witness_insert_all conflict rows d) = db_mediationPanels d"
  by (induction rows arbitrary: d) (simp_all add: Let_def)

lemma witness_insert_all_keeps_rows:
  "\<exists>new. db_witnesses (witness_insert_all conflict rows d) = db_witnesses d @ new
         \<and> length new \<le> length rows"
proof (induction rows arbitrary: d)
  case Nil
  then show ?case by simp
next
  case (Cons mk rest)
  let ?row = "mk (db_next_id d)"
  show ?case
  proof (cases "list_ex (\<lambda>x. conflict x ?row) (db_witnesses d)")
    case True
    with Cons.IH [of d] show ?thesis by (auto simp: Let_def)
  next
    case False
    let ?d1 = "d\<lparr>db_witnesses := db_witnesses d @ [?row], db_next_id := db_next_id d + 1\<rparr>"
    from Cons.IH [of ?d1] obtain new where
      "db_witnesses (witness_insert_all conflict rest ?d1) = db_witnesses ?d1 @ new"
      "length new \<le> length rest" by blast
    with False show ?thesis
      by (intro exI [of _ "?row # new"]) (simp add: Let_def)
  qed
qed

lemma witness_createMany_effect:
  obtains d' where "witness_createMany_skipDuplicates env rows d = Some ((), d')"
    and "db_witnesses d' = db_witnesses (witness_insert_all (witness_conflict env) rows d)"
    and "db_cases d' = db_cases d"
    and "db_caseHistory d' = db_caseHistory d"
    and "db_notifications d' = db_notifications d"
    and "db_users d' = db_users d"
    and "db_mediationPanels d' = db_mediationPanels d"
  by (simp add: witness_createMany_skipDuplicates_def witness_insert_all_other_tables)

lemma witness_notifications_are_notifications:
  "list_all is_notification (map (\<lambda>witness. notification_create (u_id witness) cid type title message) ws)"
  by (induction ws) simp_all

text \<open>The successful run of a nomination, table by table.\<close>

lemma nominateWitnesses_run:
  assumes "1 \<le> length (wb_witnessEmails body)"
    and "list_all (isEmail env) (wb_witnessEmails body)"
    and "find (\<lambda>c. c_id c = cid
                \<and> (c_complainantId c = u_id caller \<or> c_respondentId c = Some (u_id caller))
                \<and> c_status c = ACCEPTED) (db_cases d) = Some c"
    and "length (filter (\<lambda>u. u_email u \<in> set (map (normalizeEmail env) (wb_witnessEmails body)))
                   (db_users d)) = length (wb_witnessEmails body)"
  obtains c' h rows d' where
    "nominateWitnesses env caller cid body (d, None)
       = (Response 200 (PUsers (filter (\<lambda>u. u_email u \<in> set (map (normalizeEmail env)
                                   (wb_witnessEmails body))) (db_users d))), d')"
    and "c_id c' = cid" and "c_status c' = WITNESSES_NOMINATED"
    and "find (\<lambda>x. c_id x = cid) (db_cases d') = Some c'"
    and "list_all (\<lambda>x. c_id x = cid \<longrightarrow> c_status x = WITNESSES_NOMINATED) (db_cases d')"
    and "db_witnesses d' = db_witnesses (witness_insert_all (witness_conflict env)
           (map (witnessData cid) (filter (\<lambda>u. u_email u \<in> set (map (normalizeEmail env)
                                   (wb_witnessEmails body))) (db_users d))) d)"
    and "db_caseHistory d' = db_caseHistory d @ [h]"
    and "h_caseId h = cid" and "h_action h = ''WITNESSES_ADDED''"
    and "h_performedById h = Some (u_id caller)" and "h_metadata h = None"
    and "db_notifications d' = db_notifications d @ rows"
    and "length rows = length (wb_witnessEmails body)"
    and "db_users d' = db_users d"
    and "db_mediationPanels d' = db_mediationPanels d"
proof -
  define emails where "emails = map (normalizeEmail env) (wb_witnessEmails body)"
  define ws where "ws = filter (\<lambda>u. u_email u \<in> set emails) (db_users d)"
  define f :: "case_row \<Rightarrow> case_row" where "f = (\<lambda>c. c\<lparr>c_status := WITNESSES_NOMINATED\<rparr>)"
  have f: "\<And>x. c_id (f x) = c_id x" "\<And>x. c_status (f x) = WITNESSES_NOMINATED"
    by (simp_all add: f_def)
  have len: "length ws = length emails"
    using assms(4) by (simp add: ws_def emails_def)
  have 0: "user_findMany_emails emails d = Some (ws, d)"
    by (simp add: user_findMany_emails_def ws_def)
  from assms(3) have c: "c \<in> set (db_cases d)" "c_id c = cid"
    by (auto dest: find_SomeD)
  then obtain c1 where c1: "find (\<lambda>x. c_id x = cid) (db_cases d) = Some c1"
    using find_Some_satisfying [of c "db_cases d" "\<lambda>x. c_id x = cid"] by blast
  from c1 have cid: "c_id c1 = cid" by (auto dest: find_SomeD)
  obtain d1 where 1: "witness_createMany_skipDuplicates env (map (witnessData cid) ws) d = Some ((), d1)"
    and d1: "db_witnesses d1 = db_witnesses (witness_insert_all (witness_conflict env)
               (map (witnessData cid) ws) d)"
      "db_cases d1 = db_cases d" "db_caseHistory d1 = db_caseHistory d"
      "db_notifications d1 = db_notifications d" "db_users d1 = db_users d"
      "db_mediationPanels d1 = db_mediationPanels d"
    by (rule witness_createMany_effect)
  have c1': "find (\<lambda>x. c_id x = cid) (db_cases d1) = Some c1"
    by (simp add: d1 c1)
  obtain d2 where 2: "case_update cid f d1 = Some (f c1, d2)"
    and d2: "db_cases d2 = map (\<lambda>x. if c_id x = cid then f x else x) (db_cases d1)"
      "db_caseHistory d2 = db_caseHistory d1" "db_notifications d2 = db_notifications d1"
      "db_witnesses d2 = db_witnesses d1" "db_users d2 = db_users d1"
      "db_mediationPanels d2 = db_mediationPanels d1"
    by (rule case_update_effect [OF c1', of f])
  obtain rows d3 where 3: "promise_all (map (\<lambda>witness. notification_create (u_id witness) cid
        ''CASE_STATUS_UPDATE'' ''Added as Witness''
        (''You have been added as a witness in case #'' @ c_caseNumber c @ ''.'')) ws) (d2, None)
        = (Done rows, (d3, None))"
    and rows: "length rows = length (map (\<lambda>witness. notification_create (u_id witness) cid
        ''CASE_STATUS_UPDATE'' ''Added as Witness''
        (''You have been added as a witness in case #'' @ c_caseNumber c @ ''.'')) ws)"
    and d3: "db_notifications d3 = db_notifications d2 @ rows" "db_caseHistory d3 = db_caseHistory d2"
      "db_cases d3 = db_cases d2" "db_witnesses d3 = db_witnesses d2" "db_users d3 = db_users d2"
      "db_mediationPanels d3 = db_mediationPanels d2"
    by (rule promise_all_notifications [OF witness_notifications_are_notifications])
  obtain h d4 where 4: "caseHistory_create cid ''WITNESSES_ADDED''
        (string_of_nat (length ws) @ '' witnesses nominated'') (Some (u_id caller)) None d3 = Some (h, d4)"
    and h: "h_caseId h = cid" "h_action h = ''WITNESSES_ADDED''"
      "h_performedById h = Some (u_id caller)" "h_metadata h = None"
    and d4: "db_caseHistory d4 = db_caseHistory d3 @ [h]" "db_cases d4 = db_cases d3"
      "db_notifications d4 = db_notifications d3" "db_witnesses d4 = db_witnesses d3"
      "db_users d4 = db_users d3" "db_mediationPanels d4 = db_mediationPanels d3"
    by (rule caseHistory_create_effect)
  have run: "nominateWitnesses env caller cid body (d, None) = (Response 200 (PUsers ws), d4)"
    using assms(1-3) len 0 1 3 4
    by (simp add: nominateWitnesses_def handle_def io_bind_def dbcall_no_fault io_return_def
        Let_def case_findFirst_def 2 [unfolded f_def] flip: emails_def)
  have found: "find (\<lambda>x. c_id x = cid) (db_cases d4) = Some (f c1)"
    unfolding d4 d3 d2 d1 by (rule find_map_update_id [OF c1, of f]) (rule f)
  have all: "list_all (\<lambda>x. c_id x = cid \<longrightarrow> c_status x = WITNESSES_NOMINATED) (db_cases d4)"
    unfolding d4 d3 d2 d1 by (rule list_all_case_update [of f]) (rule f)+
  show ?thesis
  proof (rule that [where c' = "f c1" and h = h and rows = rows and d' = d4])
    show "nominateWitnesses env caller cid body (d, None)
       = (Response 200 (PUsers (filter (\<lambda>u. u_email u \<in> set (map (normalizeEmail env)
                                   (wb_witnessEmails body))) (db_users d))), d4)"
      using run by (simp add: ws_def emails_def)
    show "find (\<lambda>x. c_id x = cid) (db_cases d4) = Some (f c1)" by (rule found)
    show "list_all (\<lambda>x. c_id x = cid \<longrightarrow> c_status x = WITNESSES_NOMINATED) (db_cases d4)"
      by (rule all)
    show "db_witnesses d4 = db_witnesses (witness_insert_all (witness_conflict env)
           (map (witnessData cid) (filter (\<lambda>u. u_email u \<in> set (map (normalizeEmail env)
                                   (wb_witnessEmails body))) (db_users d))) d)"
      by (simp add: d4 d3 d2 d1 ws_def emails_def)
    show "length rows = length (wb_witnessEmails body)"
      using rows len by (simp add: emails_def)
  qed (simp_all add: f cid d1 d2 d3 d4 h)
qed

lemma witness_insert_all_all_conflict:
  assumes "list_all (\<lambda>mk. \<forall>n. list_ex (\<lambda>x. conflict x (mk n)) (db_witnesses d)) rows"
  shows "witness_insert_all conflict rows d = d"
  using assms by (induction rows) (simp_all add: Let_def)

text \<open>
  C6 (as amended). A nomination on an ACCEPTED case by its complainant or respondent,
  with valid emails that match as many registered users as there are emails, succeeds
  whether or not a nominated identity is already a witness of the case: it answers 200
  (never a conflict) and moves the case to WITNESSES_NOMINATED. The rows are inserted
  with \<open>skipDuplicates\<close>: the table keeps its rows, a new row that collides with an
  existing one on a unique index is left out without an error, and when every new row
  collides the table is unchanged.
\<close>

theorem nominateWitnesses_accepts_duplicates:
  assumes "1 \<le> length (wb_witnessEmails body)"
    and "list_all (isEmail env) (wb_witnessEmails body)"
    and "find (\<lambda>c. c_id c = cid
                \<and> (c_complainantId c = u_id caller \<or> c_respondentId c = Some (u_id caller))
                \<and> c_status c = ACCEPTED) (db_cases d) = Some c"
    and "length (filter (\<lambda>u. u_email u \<in> set (map (normalizeEmail env) (wb_witnessEmails body)))
                   (db_users d)) = length (wb_witnessEmails body)"
  shows "\<exists>ws c' d'. nominateWitnesses env caller cid body (d, None) = (Response 200 (PUsers ws), d')
     \<and> class_of (Response 200 (PUsers ws)) \<noteq> Some CONFLICT
     \<and> ws = filter (\<lambda>u. u_email u \<in> set (map (normalizeEmail env) (wb_witnessEmails body))) (db_users d)
     \<and> c_id c' = cid \<and> c_status c' = WITNESSES_NOMINATED
     \<and> find (\<lambda>x. c_id x = cid) (db_cases d') = Some c'
     \<and> db_witnesses d' = db_witnesses (witness_insert_all (witness_conflict env)
                                          (map (witnessData cid) ws) d)
     \<and> (\<exists>new. db_witnesses d' = db_witnesses d @ new \<and> length new \<le> length ws)
     \<and> (list_all (\<lambda>w. \<forall>n. list_ex (\<lambda>x. witness_conflict env x (witnessData cid w n)) (db_witnesses d)) ws
          \<longrightarrow> db_witnesses d' = db_witnesses d)"
proof -
  define ws where "ws = filter (\<lambda>u. u_email u \<in> set (map (normalizeEmail env) (wb_witnessEmails body)))
                          (db_users d)"
  obtain c' d' where run: "nominateWitnesses env caller cid body (d, None) = (Response 200 (PUsers ws), d')"
    and c': "c_id c' = cid" "c_status c' = WITNESSES_NOMINATED"
      "find (\<lambda>x. c_id x = cid) (db_cases d') = Some c'"
    and w: "db_witnesses d' = db_witnesses (witness_insert_all (witness_conflict env)
                                          (map (witnessData cid) ws) d)"
    unfolding ws_def by (rule nominateWitnesses_run [OF assms])
  have new: "\<exists>new. db_witnesses d' = db_witnesses d @ new \<and> length new \<le> length ws"
    unfolding w using witness_insert_all_keeps_rows [of "witness_conflict env" "map (witnessData cid) ws" d]
    by simp
  have dup: "db_witnesses d' = db_witnesses d"
    if "list_all (\<lambda>w. \<forall>n. list_ex (\<lambda>x. witness_conflict env x (witnessData cid w n)) (db_witnesses d)) ws"
  proof -
    from that have "list_all (\<lambda>mk. \<forall>n. list_ex (\<lambda>x. witness_conflict env x (mk n)) (db_witnesses d))
        (map (witnessData cid) ws)"
      by (simp add: list_all_iff)
    then show ?thesis unfolding w by (simp add: witness_insert_all_all_conflict)
  qed
  from new obtain new where n: "db_witnesses d' = db_witnesses d @ new" "length new \<le> length ws"
    by blast
  show ?thesis
  proof (intro exI conjI impI)
    show "nominateWitnesses env caller cid body (d, None) = (Response 200 (PUsers ws), d')"
      by (rule run)
    show "class_of (Response 200 (PUsers ws)) \<noteq> Some CONFLICT" by (simp add: class_of_def)
    show "ws = filter (\<lambda>u. u_email u \<in> set (map (normalizeEmail env) (wb_witnessEmails body))) (db_users d)"
      by (rule ws_def)
    show "c_id c' = cid" by (rule c')
    show "c_status c' = WITNESSES_NOMINATED" by (rule c')
    show "find (\<lambda>x. c_id x = cid) (db_cases d') = Some c'" by (rule c')
    show "db_witnesses d' = db_witnesses (witness_insert_all (witness_conflict env)
                                          (map (witnessData cid) ws) d)" by (rule w)
    show "db_witnesses d' = db_witnesses d @ new" by (rule n)
    show "length new \<le> length ws" by (rule n)
    show "db_witnesses d' = db_witnesses d"
      if "list_all (\<lambda>w. \<forall>n. list_ex (\<lambda>x. witness_conflict env x (witnessData cid w n)) (db_witnesses d)) ws"
      using that by (rule dup)
  qed
qed

theorem nominateWitnesses_accepts_duplicates_witness:
  "\<exists>ws c' d'. nominateWitnesses env0 bob 10 \<lparr>wb_witnessEmails = [''wendy@example.com'']\<rparr>
        (db_with_witness, None) = (Response 200 (PUsers ws), d')
     \<and> ws = [wendy]
     \<and> c_id c' = 10 \<and> c_status c' = WITNESSES_NOMINATED
     \<and> find (\<lambda>x. c_id x = 10) (db_cases d') = Some c'
     \<and> db_witnesses d' = db_witnesses db_with_witness"
proof -
  let ?body = "\<lparr>wb_witnessEmails = [''wendy@example.com'']\<rparr>"
  have 1: "1 \<le> length (wb_witnessEmails ?body)" by simp
  have 2: "list_all (isEmail env0) (wb_witnessEmails ?body)" by (simp add: env0_def)
  have 3: "find (\<lambda>c. c_id c = 10
                \<and> (c_complainantId c = u_id bob \<or> c_respondentId c = Some (u_id bob))
                \<and> c_status c = ACCEPTED) (db_cases db_with_witness) = Some (case10 ACCEPTED)"
    by (simp add: db_with_witness_def data_defs)
  have ws: "filter (\<lambda>u. u_email u \<in> set (map (normalizeEmail env0) (wb_witnessEmails ?body)))
              (db_users db_with_witness) = [wendy]"
    by (simp add: db_with_witness_def data_defs lower_char_def)
  have 4: "length (filter (\<lambda>u. u_email u \<in> set (map (normalizeEmail env0) (wb_witnessEmails ?body)))
                   (db_users db_with_witness)) = length (wb_witnessEmails ?body)"
    unfolding ws by simp
  have dup: "list_all (\<lambda>w. \<forall>n. list_ex (\<lambda>x. witness_conflict env0 x (witnessData 10 w n))
                 (db_witnesses db_with_witness)) [wendy]"
    by (simp add: db_with_witness_def env0_def witnessData_def wendy_def)
  from nominateWitnesses_accepts_duplicates [OF 1 2 3 4] ws dup show ?thesis
    by auto
qed

text \<open>
  C6 as stated fails: Alice nominates Wendy for case 10, the admin sets the case back to
  ACCEPTED, and Bob nominates Wendy again. Wendy is already a witness of the case, yet
  the second nomination is answered 200, not with a conflict, and the duplicate row is
  dropped without a word.
\<close>

theorem nominateWitnesses_duplicate_counterexample:
  "list_ex (\<lambda>w. w_caseId w = 10 \<and> w_email w = ''wendy@example.com'') (db_witnesses db_reopened)
   \<and> map c_status (db_cases db_reopened) = [ACCEPTED]
   \<and> status_code (fst (nominateWitnesses env0 bob 10 \<lparr>wb_witnessEmails = [''wendy@example.com'']\<rparr>
         (db_reopened, None))) = 200
   \<and> class_of (fst (nominateWitnesses env0 bob 10 \<lparr>wb_witnessEmails = [''wendy@example.com'']\<rparr>
         (db_reopened, None))) \<noteq> Some CONFLICT
   \<and> map w_email (db_witnesses (snd (nominateWitnesses env0 bob 10
         \<lparr>wb_witnessEmails = [''wendy@example.com'']\<rparr> (db_reopened, None)))) = [''wendy@example.com'']"
  by (simp add: db_reopened_def db_nominated_def nominate_defs setStatus_def
      status_notifications_def run_defs data_defs lower_char_def class_of_def)

subsection \<open>Creating a panel\<close>


lemma mediationPanel_create_effect:
  obtains p d' where "mediationPanel_create cid lawyerId rs sm d = Some (p, d')"
    and "p_id p = db_next_id d" and "p_caseId p = cid" and "p_lawyerId p = lawyerId"
    and "db_mediationPanels d' = db_mediationPanels d @ [p]"
    and "db_cases d' = db_cases d"
    and "db_caseHistory d' = db_caseHistory d"
    and "db_notifications d' = db_notifications d"
    and "db_witnesses d' = db_witnesses d"
    and "db_users d' = db_users d"
  by (simp add: mediationPanel_create_def Let_def)

lemma panel_notifications_are_notifications:
  "list_all is_notification (panel_notifications c cid members)"
  by (induction members) (simp_all add: panel_notifications_def split: option.splits)

text \<open>The successful run of a panel creation, table by table.\<close>

lemma createPanel_run:
  assumes "pb_lawyerId body = Some lawyerId"
    and "find (\<lambda>c. c_id c = cid) (db_cases d) = Some c"
    and "find (\<lambda>p. p_caseId p = c_id c) (db_mediationPanels d) = None"
    and "c_status c = WITNESSES_NOMINATED \<or> c_status c = ACCEPTED"
    and "length (filter (\<lambda>u. u_id u \<in> set (filter_Boolean
           [Some lawyerId, pb_religiousScholarId body, pb_societyMemberId body])) (db_users d))
         = length (filter_Boolean [Some lawyerId, pb_religiousScholarId body, pb_societyMemberId body])"
  obtains p h rows d' where
    "createPanel caller cid body (d, None) = (Response 201 (PPanel p), d')"
    and "db_mediationPanels d' = db_mediationPanels d @ [p]"
    and "p_caseId p = cid"
    and "db_cases d' = map (\<lambda>x. if c_id x = cid then x\<lparr>c_status := PANEL_CREATED\<rparr> else x) (db_cases d)"
    and "db_caseHistory d' = db_caseHistory d @ [h]"
    and "h_caseId h = cid" and "h_action h = ''PANEL_CREATED''"
    and "h_performedById h = None"
    and "h_metadata h = Some (panel_metadata caller p lawyerId (pb_religiousScholarId body)
                                (pb_societyMemberId body))"
    and "db_notifications d' = db_notifications d @ rows"
    and "db_witnesses d' = db_witnesses d"
    and "db_users d' = db_users d"
proof -
  define ids where "ids = filter_Boolean [Some lawyerId, pb_religiousScholarId body, pb_societyMemberId body]"
  define members where "members = filter (\<lambda>u. u_id u \<in> set ids) (db_users d)"
  have len: "length members = length ids"
    using assms(5) by (simp add: members_def ids_def)
  have 0: "case_findUnique_with_panel cid d = Some (Some (c, None), d)"
    using assms(2,3) by (simp add: case_findUnique_with_panel_def)
  have m: "user_findMany_ids ids d = Some (members, d)"
    by (simp add: user_findMany_ids_def members_def)
  obtain p d1 where 1: "mediationPanel_create cid lawyerId (pb_religiousScholarId body)
        (pb_societyMemberId body) d = Some (p, d1)"
    and p: "p_caseId p = cid"
    and d1: "db_mediationPanels d1 = db_mediationPanels d @ [p]" "db_cases d1 = db_cases d"
      "db_caseHistory d1 = db_caseHistory d" "db_notifications d1 = db_notifications d"
      "db_witnesses d1 = db_witnesses d" "db_users d1 = db_users d"
    by (rule mediationPanel_create_effect)
  have c1: "find (\<lambda>c. c_id c = cid) (db_cases d1) = Some c"
    by (simp add: d1 assms(2))
  obtain d2 where 2: "case_update cid (\<lambda>c. c\<lparr>c_status := PANEL_CREATED\<rparr>) d1
        = Some (c\<lparr>c_status := PANEL_CREATED\<rparr>, d2)"
    and d2: "db_cases d2 = map (\<lambda>x. if c_id x = cid then x\<lparr>c_status := PANEL_CREATED\<rparr> else x) (db_cases d1)"
      "db_caseHistory d2 = db_caseHistory d1" "db_notifications d2 = db_notifications d1"
      "db_witnesses d2 = db_witnesses d1" "db_users d2 = db_users d1"
      "db_mediationPanels d2 = db_mediationPanels d1"
    by (rule case_update_effect [OF c1, of "\<lambda>c. c\<lparr>c_status := PANEL_CREATED\<rparr>"])
  obtain h d3 where 3: "caseHistory_create cid ''PANEL_CREATED'' ''Mediation panel created'' None
        (Some (panel_metadata caller p lawyerId (pb_religiousScholarId body)
                 (pb_societyMemberId body))) d2 = Some (h, d3)"
    and h: "h_caseId h = cid" "h_action h = ''PANEL_CREATED''" "h_performedById h = None"
      "h_metadata h = Some (panel_metadata caller p lawyerId (pb_religiousScholarId body)
                                (pb_societyMemberId body))"
    and d3: "db_caseHistory d3 = db_caseHistory d2 @ [h]" "db_cases d3 = db_cases d2"
      "db_notifications d3 = db_notifications d2" "db_witnesses d3 = db_witnesses d2"
      "db_users d3 = db_users d2" "db_mediationPanels d3 = db_mediationPanels d2"
    by (rule caseHistory_create_effect)
  obtain rows d4 where 4: "promise_all (panel_notifications c cid members) (d3, None)
        = (Done rows, (d4, None))"
    and d4: "db_notifications d4 = db_notifications d3 @ rows" "db_caseHistory d4 = db_caseHistory d3"
      "db_cases d4 = db_cases d3" "db_witnesses d4 = db_witnesses d3" "db_users d4 = db_users d3"
      "db_mediationPanels d4 = db_mediationPanels d3"
    by (rule promise_all_notifications [OF panel_notifications_are_notifications])
  have run: "createPanel caller cid body (d, None) = (Response 201 (PPanel p), d4)"
    using assms(1,4) len 0 m 1 2 3 4
    by (auto simp add: createPanel_def handle_def io_bind_def dbcall_no_fault io_return_def
        Let_def simp flip: ids_def)
  show ?thesis
    by (rule that [where p = p and h = h and rows = rows and d' = d4])
       (simp_all add: run p h d1 d2 d3 d4)
qed


subsection \<open>One history entry for each successful operation\<close>


text \<open>A handler answers with success only when all its guards have passed.\<close>

lemma setStatus_success:
  assumes "status_code (fst (setStatus env caller cid body (d, None))) = 200"
  obtains target c where "parse_status (b_status body) = Some target"
    and "optional_isLength 10 500 (b_reason body)"
    and "find (\<lambda>c. c_id c = cid) (db_cases d) = Some c"
proof (cases "parse_status (b_status body)")
  case None
  with assms show ?thesis
    by (simp add: setStatus_def handle_def reply_def validation_failed_def)
next
  case (Some target)
  show ?thesis
  proof (cases "optional_isLength 10 500 (b_reason body)")
    case False
    with assms Some show ?thesis
      by (simp add: setStatus_def handle_def reply_def validation_failed_def)
  next
    case True
    show ?thesis
    proof (cases "find (\<lambda>c. c_id c = cid) (db_cases d)")
      case None
      with assms Some True show ?thesis
        by (simp add: setStatus_def handle_def reply_def io_bind_def dbcall_no_fault
            case_findUnique_def Let_def)
    next
      case (Some c)
      with \<open>parse_status (b_status body) = Some target\<close> True show ?thesis by (rule that)
    qed
  qed
qed

lemma respondToCase_success:
  assumes "status_code (fst (respondToCase env caller cid body (d, None))) = 200"
  obtains a c where "rb_accepted body = JSBool a"
    and "optional_isLength 10 1000 (rb_response body)"
    and "find (\<lambda>c. c_id c = cid \<and> c_respondentId c = Some (u_id caller)
                   \<and> c_status c = AWAITING_RESPONSE) (db_cases d) = Some c"
proof (cases "isBoolean (rb_accepted body) \<and> optional_isLength 10 1000 (rb_response body)")
  case False
  with assms show ?thesis
    by (simp add: respondToCase_def handle_def reply_def validation_failed_def)
next
  case True
  show ?thesis
  proof (cases "find (\<lambda>c. c_id c = cid \<and> c_respondentId c = Some (u_id caller)
                   \<and> c_status c = AWAITING_RESPONSE) (db_cases d)")
    case None
    with assms True show ?thesis
      by (simp add: respondToCase_def handle_def reply_def io_bind_def dbcall_no_fault
          case_findFirst_def Let_def)
  next
    case (Some c)
    show ?thesis
    proof (cases "rb_accepted body")
      case (JSString s)
      with assms True Some show ?thesis
        by (simp add: respondToCase_def handle_def reply_def io_bind_def dbcall_no_fault
            case_findFirst_def Let_def case_update_response_def)
    next
      case (JSBool a)
      with True Some show ?thesis by (intro that [of a c]) simp_all
    qed
  qed
qed

lemma nominateWitnesses_success:
  assumes "status_code (fst (nominateWitnesses env caller cid body (d, None))) = 200"
  obtains c where "1 \<le> length (wb_witnessEmails body)"
    and "list_all (isEmail env) (wb_witnessEmails body)"
    and "find (\<lambda>c. c_id c = cid
                \<and> (c_complainantId c = u_id caller \<or> c_respondentId c = Some (u_id caller))
                \<and> c_status c = ACCEPTED) (db_cases d) = Some c"
    and "length (filter (\<lambda>u. u_email u \<in> set (map (normalizeEmail env) (wb_witnessEmails body)))
                   (db_users d)) = length (wb_witnessEmails body)"
proof (cases "1 \<le> length (wb_witnessEmails body) \<and> list_all (isEmail env) (wb_witnessEmails body)")
  case False
  with assms show ?thesis
    by (simp add: nominateWitnesses_def handle_def reply_def validation_failed_def)
next
  case True
  show ?thesis
  proof (cases "find (\<lambda>c. c_id c = cid
                \<and> (c_complainantId c = u_id caller \<or> c_respondentId c = Some (u_id caller))
                \<and> c_status c = ACCEPTED) (db_cases d)")
    case None
    with assms True show ?thesis
      by (simp add: nominateWitnesses_def handle_def reply_def io_bind_def dbcall_no_fault
          case_findFirst_def Let_def)
  next
    case (Some c)
    show ?thesis
    proof (cases "length (filter (\<lambda>u. u_email u \<in> set (map (normalizeEmail env) (wb_witnessEmails body)))
                   (db_users d)) = length (wb_witnessEmails body)")
      case False
      with assms True Some show ?thesis
        by (simp add: nominateWitnesses_def handle_def reply_def io_bind_def dbcall_no_fault
            case_findFirst_def Let_def user_findMany_emails_def)
    next
      case len: True
      with True Some show ?thesis by (intro that [of c]) simp_all
    qed
  qed
qed

lemma createPanel_success:
  assumes "status_code (fst (createPanel caller cid body (d, None))) = 201"
  obtains lawyerId c where "pb_lawyerId body = Some lawyerId"
    and "find (\<lambda>c. c_id c = cid) (db_cases d) = Some c"
    and "find (\<lambda>p. p_caseId p = c_id c) (db_mediationPanels d) = None"
    and "c_status c = WITNESSES_NOMINATED \<or> c_status c = ACCEPTED"
    and "length (filter (\<lambda>u. u_id u \<in> set (filter_Boolean
           [Some lawyerId, pb_religiousScholarId body, pb_societyMemberId body])) (db_users d))
         = length (filter_Boolean [Some lawyerId, pb_religiousScholarId body, pb_societyMemberId body])"
proof (cases "pb_lawyerId body")
  case None
  with assms show ?thesis
    by (simp add: createPanel_def handle_def reply_def validation_failed_def)
next
  case lawyer: (Some lawyerId)
  show ?thesis
  proof (cases "find (\<lambda>c. c_id c = cid) (db_cases d)")
    case None
    with assms lawyer show ?thesis
      by (simp add: createPanel_def handle_def reply_def io_bind_def dbcall_no_fault
          case_findUnique_with_panel_def Let_def)
  next
    case c: (Some c)
    show ?thesis
    proof (cases "find (\<lambda>p. p_caseId p = c_id c) (db_mediationPanels d)")
      case (Some p)
      with assms lawyer c show ?thesis
        by (simp add: createPanel_def handle_def reply_def io_bind_def dbcall_no_fault
            case_findUnique_with_panel_def Let_def)
    next
      case panel: None
      show ?thesis
      proof (cases "c_status c = WITNESSES_NOMINATED \<or> c_status c = ACCEPTED")
        case False
        with assms lawyer c panel show ?thesis
          by (simp add: createPanel_def handle_def reply_def io_bind_def dbcall_no_fault
              case_findUnique_with_panel_def Let_def)
      next
        case st: True
        show ?thesis
        proof (cases "length (filter (\<lambda>u. u_id u \<in> set (filter_Boolean
           [Some lawyerId, pb_religiousScholarId body, pb_societyMemberId body])) (db_users d))
         = length (filter_Boolean [Some lawyerId, pb_religiousScholarId body, pb_societyMemberId body])")
          case False
          with assms lawyer c panel st show ?thesis
            by (auto simp add: createPanel_def handle_def reply_def io_bind_def dbcall_no_fault
                case_findUnique_with_panel_def Let_def user_findMany_ids_def)
        next
          case True
          with lawyer c panel st show ?thesis by (intro that [of lawyerId c])
        qed
      qed
    qed
  qed
qed

lemma createCase_success:
  assumes "status_code (fst (createCase env caller raw files (d, None))) = 201"
  shows "valid_createCase env raw
     \<and> \<not> court_details_missing (sanitized_createCase env raw)
     \<and> \<not> police_details_missing (sanitized_createCase env raw)"
proof (cases "valid_createCase env raw")
  case False
  with assms show ?thesis
    by (simp add: createCase_def handle_def reply_def validation_failed_def)
next
  case True
  show ?thesis
  proof (cases "court_details_missing (sanitized_createCase env raw)")
    case c: True
    with assms True show ?thesis
      by (simp add: createCase_def handle_def reply_def Let_def)
  next
    case c: False
    show ?thesis
    proof (cases "police_details_missing (sanitized_createCase env raw)")
      case p: True
      with assms True c show ?thesis
        by (simp add: createCase_def handle_def reply_def Let_def)
    next
      case False
      with True c show ?thesis by simp
    qed
  qed
qed



lemma same_run:
  assumes "op = (r, d')" and "op = (r2, d2)"
  shows "r = r2" and "d' = d2"
  using assms by simp_all

text \<open>
  C2 (as amended). Every successful createCase, respondToCase, nominateWitnesses,
  createPanel and setStatus appends exactly one entry to the case history. Only the
  entry of setStatus records the transition: its metadata holds as \<open>previousStatus\<close> the
  status the case had before and as \<open>newStatus\<close> the status it has after. The entries
  of createCase, respondToCase and nominateWitnesses have no metadata, and the metadata
  of the createPanel entry has the fields \<open>adminId\<close>, \<open>panelId\<close> and \<open>panelMembers\<close>
  only. Each entry carries the id of its case; for createCase that is the case just
  created. (Runs without a failing database call; for createCase the generated id is
  fresh.)
\<close>

theorem one_audit_entry_per_operation:
  "(createCase env caller raw files (d, None) = (r, d') \<and> status_code r = 201
      \<and> list_all (\<lambda>c. c_id c \<noteq> db_next_id d) (db_cases d)
      \<longrightarrow> (\<exists>h c. r = Response 201 (PCaseOpt (Some c)) \<and> db_cases d' = db_cases d @ [c]
               \<and> db_caseHistory d' = db_caseHistory d @ [h] \<and> h_caseId h = c_id c
               \<and> h_action h = ''CASE_CREATED'' \<and> h_performedById h = Some (u_id caller)
               \<and> h_metadata h = None))
   \<and> (respondToCase env caller cid rbody (d, None) = (r, d') \<and> status_code r = 200
      \<longrightarrow> (\<exists>h. db_caseHistory d' = db_caseHistory d @ [h] \<and> h_caseId h = cid
               \<and> (h_action h = ''CASE_ACCEPTED'' \<or> h_action h = ''CASE_REJECTED'')
               \<and> h_metadata h = None))
   \<and> (nominateWitnesses env caller cid wbody (d, None) = (r, d') \<and> status_code r = 200
      \<longrightarrow> (\<exists>h. db_caseHistory d' = db_caseHistory d @ [h] \<and> h_caseId h = cid
               \<and> h_action h = ''WITNESSES_ADDED'' \<and> h_metadata h = None))
   \<and> (createPanel caller cid pbody (d, None) = (r, d') \<and> status_code r = 201
      \<longrightarrow> (\<exists>h meta. db_caseHistory d' = db_caseHistory d @ [h] \<and> h_caseId h = cid
               \<and> h_action h = ''PANEL_CREATED''
               \<and> h_metadata h = Some meta
               \<and> map fst meta = [''adminId'', ''panelId'', ''panelMembers'']
               \<and> meta_field h ''previousStatus'' = None \<and> meta_field h ''newStatus'' = None))
   \<and> (setStatus env caller cid sbody (d, None) = (r, d') \<and> status_code r = 200
      \<longrightarrow> (\<exists>h c c'. db_caseHistory d' = db_caseHistory d @ [h] \<and> h_caseId h = cid
               \<and> h_action h = ''STATUS_UPDATED_BY_ADMIN''
               \<and> find (\<lambda>x. c_id x = cid) (db_cases d) = Some c
               \<and> find (\<lambda>x. c_id x = cid) (db_cases d') = Some c'
               \<and> meta_field h ''previousStatus'' = Some (JStr (status_name (c_status c)))
               \<and> meta_field h ''newStatus'' = Some (JStr (status_name (c_status c')))))"
proof (intro conjI impI; elim conjE)
  assume run: "createCase env caller raw files (d, None) = (r, d')" and ok: "status_code r = 201"
    and fresh: "list_all (\<lambda>c. c_id c \<noteq> db_next_id d) (db_cases d)"
  from run ok have "status_code (fst (createCase env caller raw files (d, None))) = 201" by simp
  then have g: "valid_createCase env raw" "\<not> court_details_missing (sanitized_createCase env raw)"
    "\<not> police_details_missing (sanitized_createCase env raw)"
    using createCase_success by blast+
  obtain c h d'' where run': "createCase env caller raw files (d, None) = (Response 201 (PCaseOpt (Some c)), d'')"
    and c: "c_id c = db_next_id d" "db_cases d'' = db_cases d @ [c]"
    and h: "db_caseHistory d'' = db_caseHistory d @ [h]" "h_caseId h = db_next_id d"
      "h_action h = ''CASE_CREATED''" "h_performedById h = Some (u_id caller)" "h_metadata h = None"
    by (rule createCase_run [OF g fresh, of caller files])
  from h(2) c(1) have "h_caseId h = c_id c" by simp
  with same_run [OF run run'] c(2) h
  show "\<exists>h c. r = Response 201 (PCaseOpt (Some c)) \<and> db_cases d' = db_cases d @ [c]
               \<and> db_caseHistory d' = db_caseHistory d @ [h] \<and> h_caseId h = c_id c
               \<and> h_action h = ''CASE_CREATED'' \<and> h_performedById h = Some (u_id caller)
               \<and> h_metadata h = None"
    by blast
next
  assume run: "respondToCase env caller cid rbody (d, None) = (r, d')" and ok: "status_code r = 200"
  from run ok have "status_code (fst (respondToCase env caller cid rbody (d, None))) = 200" by simp
  then obtain a c where g: "rb_accepted rbody = JSBool a" "optional_isLength 10 1000 (rb_response rbody)"
    "find (\<lambda>c. c_id c = cid \<and> c_respondentId c = Some (u_id caller)
                   \<and> c_status c = AWAITING_RESPONSE) (db_cases d) = Some c"
    by (rule respondToCase_success)
  obtain c' h d'' where run': "respondToCase env caller cid rbody (d, None) = (Response 200 (PCase c'), d'')"
    and h: "db_caseHistory d'' = db_caseHistory d @ [h]" "h_caseId h = cid"
      "h_action h = (if a then ''CASE_ACCEPTED'' else ''CASE_REJECTED'')" "h_metadata h = None"
    by (rule respondToCase_run [OF g, of env])
  from h(3) have "h_action h = ''CASE_ACCEPTED'' \<or> h_action h = ''CASE_REJECTED''"
    by (cases a) simp_all
  with same_run(2) [OF run run'] h
  show "\<exists>h. db_caseHistory d' = db_caseHistory d @ [h] \<and> h_caseId h = cid
               \<and> (h_action h = ''CASE_ACCEPTED'' \<or> h_action h = ''CASE_REJECTED'')
               \<and> h_metadata h = None"
    by blast
next
  assume run: "nominateWitnesses env caller cid wbody (d, None) = (r, d')" and ok: "status_code r = 200"
  from run ok have "status_code (fst (nominateWitnesses env caller cid wbody (d, None))) = 200" by simp
  then obtain c where g: "1 \<le> length (wb_witnessEmails wbody)"
    "list_all (isEmail env) (wb_witnessEmails wbody)"
    "find (\<lambda>c. c_id c = cid
                \<and> (c_complainantId c = u_id caller \<or> c_respondentId c = Some (u_id caller))
                \<and> c_status c = ACCEPTED) (db_cases d) = Some c"
    "length (filter (\<lambda>u. u_email u \<in> set (map (normalizeEmail env) (wb_witnessEmails wbody)))
                   (db_users d)) = length (wb_witnessEmails wbody)"
    by (rule nominateWitnesses_success)
  obtain h d'' where run': "nominateWitnesses env caller cid wbody (d, None)
       = (Response 200 (PUsers (filter (\<lambda>u. u_email u \<in> set (map (normalizeEmail env)
                                   (wb_witnessEmails wbody))) (db_users d))), d'')"
    and h: "db_caseHistory d'' = db_caseHistory d @ [h]" "h_caseId h = cid"
      "h_action h = ''WITNESSES_ADDED''" "h_metadata h = None"
    by (rule nominateWitnesses_run [OF g])
  from same_run(2) [OF run run'] h
  show "\<exists>h. db_caseHistory d' = db_caseHistory d @ [h] \<and> h_caseId h = cid
               \<and> h_action h = ''WITNESSES_ADDED'' \<and> h_metadata h = None"
    by blast
next
  assume run: "createPanel caller cid pbody (d, None) = (r, d')" and ok: "status_code r = 201"
  from run ok have "status_code (fst (createPanel caller cid pbody (d, None))) = 201" by simp
  then obtain lawyerId c where g: "pb_lawyerId pbody = Some lawyerId"
    "find (\<lambda>c. c_id c = cid) (db_cases d) = Some c"
    "find (\<lambda>p. p_caseId p = c_id c) (db_mediationPanels d) = None"
    "c_status c = WITNESSES_NOMINATED \<or> c_status c = ACCEPTED"
    "length (filter (\<lambda>u. u_id u \<in> set (filter_Boolean
           [Some lawyerId, pb_religiousScholarId pbody, pb_societyMemberId pbody])) (db_users d))
         = length (filter_Boolean [Some lawyerId, pb_religiousScholarId pbody, pb_societyMemberId pbody])"
    by (rule createPanel_success)
  obtain p h d'' where run': "createPanel caller cid pbody (d, None) = (Response 201 (PPanel p), d'')"
    and h: "db_caseHistory d'' = db_caseHistory d @ [h]" "h_caseId h = cid"
      "h_action h = ''PANEL_CREATED''"
      "h_metadata h = Some (panel_metadata caller p lawyerId (pb_religiousScholarId pbody)
                                (pb_societyMemberId pbody))"
    by (rule createPanel_run [OF g, of caller])
  from h(4) have "meta_field h ''previousStatus'' = None" "meta_field h ''newStatus'' = None"
    by (simp_all add: meta_field_def panel_metadata_def)
  moreover have "map fst (panel_metadata caller p lawyerId (pb_religiousScholarId pbody)
        (pb_societyMemberId pbody)) = [''adminId'', ''panelId'', ''panelMembers'']"
    by (simp add: panel_metadata_def)
  moreover have "d' = d''" by (rule same_run(2) [OF run run'])
  ultimately show "\<exists>h meta. db_caseHistory d' = db_caseHistory d @ [h] \<and> h_caseId h = cid
               \<and> h_action h = ''PANEL_CREATED''
               \<and> h_metadata h = Some meta
               \<and> map fst meta = [''adminId'', ''panelId'', ''panelMembers'']
               \<and> meta_field h ''previousStatus'' = None \<and> meta_field h ''newStatus'' = None"
    using h by (intro exI [of _ h] exI [of _ "panel_metadata caller p lawyerId
        (pb_religiousScholarId pbody) (pb_societyMemberId pbody)"]) simp
next
  assume run: "setStatus env caller cid sbody (d, None) = (r, d')" and ok: "status_code r = 200"
  from run ok have "status_code (fst (setStatus env caller cid sbody (d, None))) = 200" by simp
  then obtain target c where g: "parse_status (b_status sbody) = Some target"
    "optional_isLength 10 500 (b_reason sbody)"
    "find (\<lambda>c. c_id c = cid) (db_cases d) = Some c"
    by (rule setStatus_success)
  obtain h d'' where run': "setStatus env caller cid sbody (d, None)
        = (Response 200 (PCase (c\<lparr>c_status := target\<rparr>)), d'')"
    and cases: "db_cases d'' = map (\<lambda>x. if c_id x = cid then x\<lparr>c_status := target\<rparr> else x) (db_cases d)"
    and h: "db_caseHistory d'' = db_caseHistory d @ [h]" "h_caseId h = cid"
      "h_action h = ''STATUS_UPDATED_BY_ADMIN''"
      "h_metadata h = Some (status_metadata caller c (b_status sbody) (sanitize env (b_reason sbody)))"
    by (rule setStatus_run [OF g, of env caller])
  have name: "status_name target = b_status sbody"
    using g(1) by (rule parse_status_name)
  have found: "find (\<lambda>x. c_id x = cid) (db_cases d'') = Some (c\<lparr>c_status := target\<rparr>)"
    unfolding cases by (rule find_map_update_id [OF g(3), of "\<lambda>x. x\<lparr>c_status := target\<rparr>"]) simp
  from h(4) have meta: "meta_field h ''previousStatus'' = Some (JStr (status_name (c_status c)))"
    "meta_field h ''newStatus'' = Some (JStr (status_name (c_status (c\<lparr>c_status := target\<rparr>))))"
    by (simp_all add: meta_field_def status_metadata_def name)
  have d: "d' = d''" by (rule same_run(2) [OF run run'])
  show "\<exists>h c c'. db_caseHistory d' = db_caseHistory d @ [h] \<and> h_caseId h = cid
               \<and> h_action h = ''STATUS_UPDATED_BY_ADMIN''
               \<and> find (\<lambda>x. c_id x = cid) (db_cases d) = Some c
               \<and> find (\<lambda>x. c_id x = cid) (db_cases d') = Some c'
               \<and> meta_field h ''previousStatus'' = Some (JStr (status_name (c_status c)))
               \<and> meta_field h ''newStatus'' = Some (JStr (status_name (c_status c')))"
    unfolding d using h(1-3) g(3) found meta by blast
qed

theorem one_audit_entry_per_operation_witness:
  "(\<exists>h c. fst (createCase env0 alice (case_body0 None) [] (db0 PENDING, None))
          = Response 201 (PCaseOpt (Some c))
        \<and> db_cases (snd (createCase env0 alice (case_body0 None) [] (db0 PENDING, None)))
          = db_cases (db0 PENDING) @ [c]
        \<and> db_caseHistory (snd (createCase env0 alice (case_body0 None) [] (db0 PENDING, None)))
          = db_caseHistory (db0 PENDING) @ [h]
        \<and> h_caseId h = c_id c
        \<and> h_action h = ''CASE_CREATED'' \<and> h_performedById h = Some (u_id alice)
        \<and> h_metadata h = None)
   \<and> (\<exists>h. db_caseHistory (snd (respondToCase env0 bob 10 \<lparr>rb_accepted = JSBool True, rb_response = None\<rparr>
            (db0 AWAITING_RESPONSE, None))) = db_caseHistory (db0 AWAITING_RESPONSE) @ [h]
        \<and> h_caseId h = 10
        \<and> (h_action h = ''CASE_ACCEPTED'' \<or> h_action h = ''CASE_REJECTED'')
        \<and> h_metadata h = None)
   \<and> (\<exists>h. db_caseHistory (snd (nominateWitnesses env0 alice 10
            \<lparr>wb_witnessEmails = [''wendy@example.com'']\<rparr> (db0 ACCEPTED, None)))
          = db_caseHistory (db0 ACCEPTED) @ [h]
        \<and> h_caseId h = 10 \<and> h_action h = ''WITNESSES_ADDED'' \<and> h_metadata h = None)
   \<and> (\<exists>h meta. db_caseHistory (snd (createPanel root 10 panel_body0 (db0 ACCEPTED, None)))
          = db_caseHistory (db0 ACCEPTED) @ [h]
        \<and> h_caseId h = 10 \<and> h_action h = ''PANEL_CREATED''
        \<and> h_metadata h = Some meta
        \<and> map fst meta = [''adminId'', ''panelId'', ''panelMembers'']
        \<and> meta_field h ''previousStatus'' = None \<and> meta_field h ''newStatus'' = None)
   \<and> (\<exists>h c c'. db_caseHistory (snd (setStatus env0 root 10 \<lparr>b_status = ''RESOLVED'', b_reason = None\<rparr>
            (db0 PENDING, None))) = db_caseHistory (db0 PENDING) @ [h]
        \<and> h_caseId h = 10 \<and> h_action h = ''STATUS_UPDATED_BY_ADMIN''
        \<and> find (\<lambda>x. c_id x = 10) (db_cases (db0 PENDING)) = Some c
        \<and> find (\<lambda>x. c_id x = 10) (db_cases (snd (setStatus env0 root 10
              \<lparr>b_status = ''RESOLVED'', b_reason = None\<rparr> (db0 PENDING, None)))) = Some c'
        \<and> meta_field h ''previousStatus'' = Some (JStr (status_name (c_status c)))
        \<and> meta_field h ''newStatus'' = Some (JStr (status_name (c_status c'))))"
proof -
  let ?create = "createCase env0 alice (case_body0 None) [] (db0 PENDING, None)"
  let ?respond = "respondToCase env0 bob 10 \<lparr>rb_accepted = JSBool True, rb_response = None\<rparr>
            (db0 AWAITING_RESPONSE, None)"
  let ?nominate = "nominateWitnesses env0 alice 10
            \<lparr>wb_witnessEmails = [''wendy@example.com'']\<rparr> (db0 ACCEPTED, None)"
  let ?panel = "createPanel root 10 panel_body0 (db0 ACCEPTED, None)"
  let ?status = "setStatus env0 root 10 \<lparr>b_status = ''RESOLVED'', b_reason = None\<rparr>
            (db0 PENDING, None)"
  have 1: "status_code (fst ?create) = 201"
    by (simp add: createCase_defs run_defs data_defs)
  have fresh: "list_all (\<lambda>c. c_id c \<noteq> db_next_id (db0 PENDING)) (db_cases (db0 PENDING))"
    by (simp add: data_defs)
  have 2: "status_code (fst ?respond) = 200"
    by (simp add: respond_defs run_defs data_defs)
  have 3: "status_code (fst ?nominate) = 200"
    by (simp add: nominate_defs run_defs data_defs lower_char_def)
  have 4: "status_code (fst ?panel) = 201"
    by (simp add: createPanel_defs run_defs data_defs)
  have 5: "status_code (fst ?status) = 200"
    by (simp add: setStatus_def status_notifications_def run_defs data_defs)
  show ?thesis
  proof (intro conjI)
    from one_audit_entry_per_operation [of env0 alice "case_body0 None" "[]" "db0 PENDING"
        "fst ?create" "snd ?create"] 1 fresh
    show "\<exists>h c. fst ?create = Response 201 (PCaseOpt (Some c))
        \<and> db_cases (snd ?create) = db_cases (db0 PENDING) @ [c]
        \<and> db_caseHistory (snd ?create) = db_caseHistory (db0 PENDING) @ [h]
        \<and> h_caseId h = c_id c
        \<and> h_action h = ''CASE_CREATED'' \<and> h_performedById h = Some (u_id alice)
        \<and> h_metadata h = None"
      by simp
    from one_audit_entry_per_operation [of env0 bob _ _ "db0 AWAITING_RESPONSE"
        "fst ?respond" "snd ?respond" 10 "\<lparr>rb_accepted = JSBool True, rb_response = None\<rparr>"] 2
    show "\<exists>h. db_caseHistory (snd ?respond) = db_caseHistory (db0 AWAITING_RESPONSE) @ [h]
        \<and> h_caseId h = 10
        \<and> (h_action h = ''CASE_ACCEPTED'' \<or> h_action h = ''CASE_REJECTED'')
        \<and> h_metadata h = None"
      by simp
    from one_audit_entry_per_operation [of env0 alice _ _ "db0 ACCEPTED"
        "fst ?nominate" "snd ?nominate" 10 _ "\<lparr>wb_witnessEmails = [''wendy@example.com'']\<rparr>"] 3
    show "\<exists>h. db_caseHistory (snd ?nominate) = db_caseHistory (db0 ACCEPTED) @ [h]
        \<and> h_caseId h = 10 \<and> h_action h = ''WITNESSES_ADDED'' \<and> h_metadata h = None"
      by simp
    from one_audit_entry_per_operation [of _ root _ _ "db0 ACCEPTED"
        "fst ?panel" "snd ?panel" 10 _ _ panel_body0] 4
    show "\<exists>h meta. db_caseHistory (snd ?panel) = db_caseHistory (db0 ACCEPTED) @ [h]
        \<and> h_caseId h = 10 \<and> h_action h = ''PANEL_CREATED''
        \<and> h_metadata h = Some meta
        \<and> map fst meta = [''adminId'', ''panelId'', ''panelMembers'']
        \<and> meta_field h ''previousStatus'' = None \<and> meta_field h ''newStatus'' = None"
      by simp
    from one_audit_entry_per_operation [of env0 root _ _ "db0 PENDING"
        "fst ?status" "snd ?status" 10 _ _ _ "\<lparr>b_status = ''RESOLVED'', b_reason = None\<rparr>"] 5
    show "\<exists>h c c'. db_caseHistory (snd ?status) = db_caseHistory (db0 PENDING) @ [h]
        \<and> h_caseId h = 10 \<and> h_action h = ''STATUS_UPDATED_BY_ADMIN''
        \<and> find (\<lambda>x. c_id x = 10) (db_cases (db0 PENDING)) = Some c
        \<and> find (\<lambda>x. c_id x = 10) (db_cases (snd ?status)) = Some c'
        \<and> meta_field h ''previousStatus'' = Some (JStr (status_name (c_status c)))
        \<and> meta_field h ''newStatus'' = Some (JStr (status_name (c_status c')))"
      by simp
  qed
qed

text \<open>
  C2 as stated fails: Bob's acceptance of case 10 moves it from AWAITING_RESPONSE to
  ACCEPTED and records one entry, \<open>CASE_ACCEPTED\<close>, that has no \<open>previousStatus\<close> and
  no \<open>newStatus\<close> field, so nothing in it matches the transition.
\<close>

theorem audit_entry_without_statuses_counterexample:
  "status_code (fst (respondToCase env0 bob 10 \<lparr>rb_accepted = JSBool True, rb_response = None\<rparr>
        (db0 AWAITING_RESPONSE, None))) = 200
   \<and> map c_status (db_cases (db0 AWAITING_RESPONSE)) = [AWAITING_RESPONSE]
   \<and> map c_status (db_cases (snd (respondToCase env0 bob 10
        \<lparr>rb_accepted = JSBool True, rb_response = None\<rparr> (db0 AWAITING_RESPONSE, None)))) = [ACCEPTED]
   \<and> map h_action (db_caseHistory (snd (respondToCase env0 bob 10
        \<lparr>rb_accepted = JSBool True, rb_response = None\<rparr> (db0 AWAITING_RESPONSE, None)))) = [''CASE_ACCEPTED'']
   \<and> map (\<lambda>h. meta_field h ''previousStatus'') (db_caseHistory (snd (respondToCase env0 bob 10
        \<lparr>rb_accepted = JSBool True, rb_response = None\<rparr> (db0 AWAITING_RESPONSE, None)))) = [None]
   \<and> map (\<lambda>h. meta_field h ''newStatus'') (db_caseHistory (snd (respondToCase env0 bob 10
        \<lparr>rb_accepted = JSBool True, rb_response = None\<rparr> (db0 AWAITING_RESPONSE, None)))) = [None]"
  by (simp add: respond_defs run_defs data_defs meta_field_def)

subsection \<open>Failing database calls\<close>


































subsection \<open>Cancelling a case\<close>





































end
